theory Spec2Isabelle
  imports Main "HOL-Library.Word" "HOL-Library.Sublist" "HOL-Library.State_Monad"
begin

section \<open>Data model of zfsd\_event.cc\<close>

text \<open>
  The file \<^verbatim>\<open>zfsd_event.cc\<close> holds the two event classes of the fault-management
  daemon, \<^verbatim>\<open>DevfsEvent\<close> (device arrival) and \<^verbatim>\<open>ZfsEvent\<close> (pool and vdev
  notifications). Both classify one event and call into collaborators that live in
  other files: the event base classes of libdevdctl, the case registry, the daemon,
  libzfs and the operating system. The collaborators are parameters of the model
  (the record \<open>env\<close> below); the functions of this file are translated one by one.
\<close>

subsection \<open>Identifiers, handles and constants\<close>

text \<open>\<^verbatim>\<open>DevdCtl::Guid\<close> wraps a 64-bit value.\<close>

type_synonym guid = "64 word"

text \<open>
  Pointers to objects owned elsewhere (\<^verbatim>\<open>nvlist_t *\<close>, \<^verbatim>\<open>zpool_handle_t *\<close>,
  \<^verbatim>\<open>CaseFile *\<close>) are identities of those objects; a pointer that may be
  \<^verbatim>\<open>NULL\<close> is an \<open>option\<close>.
\<close>

type_synonym nvlist = nat
type_synonym zpool_handle = nat
type_synonym CaseFile = nat

text \<open>
  Modelled from the spec: \<^verbatim>\<open>enum vdev_state\<close> is declared in
  \<^verbatim>\<open>sys/fs/zfs.h\<close>, which is not among the sources. The states are ordered, with
  healthy the maximum and unknown the minimum; \<open>vdev_state_rank\<close> is the enumerator's
  integer value, which \<^verbatim>\<open><\<close> compares.
\<close>

datatype vdev_state =
    VDEV_STATE_UNKNOWN
  | VDEV_STATE_CLOSED
  | VDEV_STATE_OFFLINE
  | VDEV_STATE_REMOVED
  | VDEV_STATE_CANT_OPEN
  | VDEV_STATE_FAULTED
  | VDEV_STATE_DEGRADED
  | VDEV_STATE_HEALTHY

fun vdev_state_rank :: "vdev_state \<Rightarrow> nat" where
  "vdev_state_rank VDEV_STATE_UNKNOWN = 0"
| "vdev_state_rank VDEV_STATE_CLOSED = 1"
| "vdev_state_rank VDEV_STATE_OFFLINE = 2"
| "vdev_state_rank VDEV_STATE_REMOVED = 3"
| "vdev_state_rank VDEV_STATE_CANT_OPEN = 4"
| "vdev_state_rank VDEV_STATE_FAULTED = 5"
| "vdev_state_rank VDEV_STATE_DEGRADED = 6"
| "vdev_state_rank VDEV_STATE_HEALTHY = 7"

text \<open>The two syslog priorities the file uses.\<close>

datatype priority = LOG_ERR | LOG_INFO

text \<open>\<^verbatim>\<open>_PATH_DEV\<close> of \<^verbatim>\<open>paths.h\<close>.\<close>

definition PATH_DEV :: string where
  "PATH_DEV = ''/dev/''"

subsection \<open>Events\<close>

text \<open>
  Modelled from the spec: \<^verbatim>\<open>DevdCtl::Event\<close> (libdevdctl) is not among the sources.
  An event is a mapping from string tag to string value with unique keys, plus its raw
  text. \<open>Contains\<close> tests for a tag; \<open>Value\<close> reads one and yields the empty string
  for a tag the event lacks.
\<close>

record event =
  nvPairs :: "string \<rightharpoonup> string"
  eventString :: string

definition Contains :: "event \<Rightarrow> string \<Rightarrow> bool" where
  "Contains ev varName = (nvPairs ev varName \<noteq> None)"

definition Value :: "event \<Rightarrow> string \<Rightarrow> string" where
  "Value ev varName = (case nvPairs ev varName of None \<Rightarrow> [] | Some v \<Rightarrow> v)"

text \<open>
  \<^verbatim>\<open>std::string::find\<close>: the position of the first occurrence of the argument in
  the string, \<open>None\<close> standing for \<^verbatim>\<open>npos\<close>.
\<close>

fun string_find :: "string \<Rightarrow> string \<Rightarrow> nat option" where
  "string_find [] needle = (if needle = [] then Some 0 else None)"
| "string_find (c # rest) needle =
     (if prefix needle (c # rest) then Some 0
      else map_option Suc (string_find rest needle))"

subsection \<open>Device-tree nodes and exceptions\<close>

text \<open>
  Modelled from the spec: class \<^verbatim>\<open>Vdev\<close> (\<^verbatim>\<open>vdev.h\<close>) is not among the sources.
  A device-tree node carries its device id, its pool id, its state, its device-node
  path and its spare flag, read by \<^verbatim>\<open>GUID\<close>, \<^verbatim>\<open>PoolGUID\<close>,
  \<^verbatim>\<open>State\<close>, \<^verbatim>\<open>Path\<close> and \<^verbatim>\<open>IsSpare\<close>. The links to parent and
  children are computed from the pool configuration by \<^verbatim>\<open>Vdev::Parent\<close> and
  \<^verbatim>\<open>Vdev::Children\<close>; they are parameters (\<open>Vdev_Parent\<close>, \<open>Vdev_Children\<close>
  below).
\<close>

record Vdev =
  Vdev_GUID :: guid
  Vdev_PoolGUID :: guid
  Vdev_State :: vdev_state
  Vdev_Path :: string
  Vdev_IsSpare :: bool

text \<open>\<^verbatim>\<open>ZfsdException\<close>: the message that \<^verbatim>\<open>GetString\<close> exposes for editing.\<close>

record ZfsdException =
  GetString :: string

subsection \<open>Calls that leave the file\<close>

text \<open>
  Every call that leaves the file and acts on the system, the case registry, the
  daemon or the log is recorded, in program order, with its arguments.
\<close>

datatype action =
    Act_syslog priority string "string list"
  | Act_Event_Log event priority
  | Act_Exception_Log ZfsdException
  | Act_DevPath event
  | Act_PhysicalPath event
  | Act_open string
  | Act_close int
  | Act_zpool_in_use int
  | Act_zpool_read_label int
  | Act_nvlist_free nvlist
  | Act_CaseFile_Find guid guid
  | Act_CaseFile_FindPhys string
  | Act_CaseFile_ReEvaluate CaseFile event
  | Act_CaseFile_ReEvaluateDev CaseFile string string "Vdev option"
  | Act_CaseFile_ReEvaluateByGuid guid event
  | Act_CaseFile_Create Vdev
  | Act_ReplayUnconsumedEvents bool
  | Act_RequestSystemRescan
  | Act_ZpoolByGUID guid
  | Act_VdevIterator_Find zpool_handle guid
  | Act_VdevIterator_Each zpool_handle
  | Act_zpool_vdev_detach zpool_handle string

text \<open>
  The collaborators. \<open>'w\<close> is the state of everything outside the file (kernel,
  devices, case registry, deferred-event queue). A call whose result the file uses is
  a function from that state to the result and the new state; a read of an object's
  field is a function of the state; \<open>effect\<close> is what a call does to the state when
  the file ignores or has no result of it (logging, \<^verbatim>\<open>close\<close>, \<^verbatim>\<open>nvlist_free\<close>,
  \<^verbatim>\<open>CaseFile::ReEvaluateByGuid\<close>, \<^verbatim>\<open>ReplayUnconsumedEvents\<close>,
  \<^verbatim>\<open>RequestSystemRescan\<close>, \<^verbatim>\<open>zpool_vdev_detach\<close>).

  \<^item> \<open>IsDiskDev\<close>, \<open>IsWholeDev\<close>, \<open>DevName\<close>, \<open>DevPath\<close>, \<open>PhysicalPath\<close>:
    \<^verbatim>\<open>DevdCtl::DevfsEvent\<close>; the last three return their \<^verbatim>\<open>bool\<close> and the
    content of the string they were given to fill.
  \<^item> \<open>EvPoolGUID\<close>, \<open>EvVdevGUID\<close>: \<^verbatim>\<open>DevdCtl::ZfsEvent::PoolGUID\<close> and
    \<^verbatim>\<open>VdevGUID\<close>.
  \<^item> \<open>zpool_in_use\<close> returns its return code and \<^verbatim>\<open>b_inuse == B_TRUE\<close>;
    \<open>zpool_read_label\<close> its return code and the label pointer.
  \<^item> \<open>Vdev_of_label\<close> is the constructor \<^verbatim>\<open>Vdev(nvlist_t *)\<close>, which throws
    \<^verbatim>\<open>ZfsdException\<close> on a label it cannot parse; \<open>Vdev_of_config\<close> is
    \<^verbatim>\<open>Vdev(zpool_handle_t *, nvlist_t *)\<close>, applied only to a configuration that
    \<^verbatim>\<open>VdevIterator::Find\<close> returned; \<^verbatim>\<open>ZfsEvent::Process\<close> has no handler around
    it, and the model takes it to succeed.
  \<^item> \<^verbatim>\<open>ReplayUnconsumedEvents\<close> belongs to the daemon: what it does with the queued
    events is part of \<open>effect\<close>, not of this file's record of calls.
  \<^item> \<open>VdevIterator_vdevs\<close> is the sequence of device nodes a \<^verbatim>\<open>VdevIterator\<close>
    over a pool yields.
  \<^item> \<open>Guid_string\<close> is the text \<^verbatim>\<open>operator<<\<close> writes for a \<^verbatim>\<open>Guid\<close>.
\<close>

record 'w env =
  IsDiskDev :: "event \<Rightarrow> bool"
  IsWholeDev :: "event \<Rightarrow> bool"
  DevName :: "event \<Rightarrow> bool \<times> string"
  DevPath :: "event \<Rightarrow> 'w \<Rightarrow> (bool \<times> string) \<times> 'w"
  PhysicalPath :: "event \<Rightarrow> 'w \<Rightarrow> (bool \<times> string) \<times> 'w"
  EvPoolGUID :: "event \<Rightarrow> guid"
  EvVdevGUID :: "event \<Rightarrow> guid"
  sys_open :: "string \<Rightarrow> 'w \<Rightarrow> int \<times> 'w"
  fdevname :: "int \<Rightarrow> 'w \<Rightarrow> string"
  zpool_in_use :: "int \<Rightarrow> 'w \<Rightarrow> (int \<times> bool) \<times> 'w"
  zpool_read_label :: "int \<Rightarrow> 'w \<Rightarrow> (int \<times> nvlist option) \<times> 'w"
  Vdev_of_label :: "nvlist \<Rightarrow> ZfsdException + Vdev"
  Vdev_of_config :: "zpool_handle \<Rightarrow> nvlist \<Rightarrow> Vdev"
  Vdev_Parent :: "Vdev \<Rightarrow> Vdev"
  Vdev_Children :: "Vdev \<Rightarrow> Vdev list"
  CaseFile_Find :: "guid \<Rightarrow> guid \<Rightarrow> 'w \<Rightarrow> CaseFile option \<times> 'w"
  CaseFile_FindPhys :: "string \<Rightarrow> 'w \<Rightarrow> CaseFile option \<times> 'w"
  CaseFile_Create :: "Vdev \<Rightarrow> 'w \<Rightarrow> CaseFile \<times> 'w"
  CaseFile_ReEvaluate :: "CaseFile \<Rightarrow> event \<Rightarrow> 'w \<Rightarrow> bool \<times> 'w"
  CaseFile_ReEvaluateDev ::
    "CaseFile \<Rightarrow> string \<Rightarrow> string \<Rightarrow> Vdev option \<Rightarrow> 'w \<Rightarrow> bool \<times> 'w"
  CaseFile_VdevState :: "CaseFile \<Rightarrow> 'w \<Rightarrow> vdev_state"
  CaseFile_PoolGUIDString :: "CaseFile \<Rightarrow> 'w \<Rightarrow> string"
  CaseFile_VdevGUIDString :: "CaseFile \<Rightarrow> 'w \<Rightarrow> string"
  ZpoolList_ZpoolByGUID :: "guid \<Rightarrow> 'w \<Rightarrow> zpool_handle list \<times> 'w"
  VdevIterator_Find :: "zpool_handle \<Rightarrow> guid \<Rightarrow> 'w \<Rightarrow> nvlist option \<times> 'w"
  VdevIterator_vdevs :: "zpool_handle \<Rightarrow> 'w \<Rightarrow> Vdev list \<times> 'w"
  zpool_get_name :: "zpool_handle \<Rightarrow> 'w \<Rightarrow> string"
  zpool_state_to_name :: "vdev_state \<Rightarrow> string"
  Guid_string :: "guid \<Rightarrow> string"
  effect :: "action \<Rightarrow> 'w \<Rightarrow> 'w"

subsection \<open>State threaded through a routing call\<close>

record 'w sys =
  world :: 'w
  trace :: "action list"

text \<open>A call whose result is used: the action is recorded, the collaborator answers.\<close>

definition extern :: "action \<Rightarrow> ('w \<Rightarrow> 'a \<times> 'w) \<Rightarrow> ('w sys, 'a) state" where
  "extern a f =
     State (\<lambda>s. case f (world s) of (r, w') \<Rightarrow> (r, \<lparr>world = w', trace = trace s @ [a]\<rparr>))"

text \<open>A call made for its effect alone.\<close>

definition perform :: "'w env \<Rightarrow> action \<Rightarrow> ('w sys, unit) state" where
  "perform env a =
     State (\<lambda>s. ((), \<lparr>world = effect env a (world s), trace = trace s @ [a]\<rparr>))"

text \<open>A read of a field of an object outside the file.\<close>

definition peek :: "('w \<Rightarrow> 'a) \<Rightarrow> ('w sys, 'a) state" where
  "peek f = State (\<lambda>s. (f (world s), s))"

abbreviation return :: "'a \<Rightarrow> ('s, 'a) state" where
  "return \<equiv> State_Monad.return"

section \<open>DevfsEvent\<close>

text \<open>
  \<^verbatim>\<open>DevfsEvent::ReadLabel(devFd, inUse, degraded)\<close>. The result is the returned label
  pointer with the final values of the two out-parameters. Both are set to false on
  entry; \<open>inUse\<close> is assigned once \<^verbatim>\<open>zpool_in_use\<close> has returned 0, \<open>degraded\<close>
  only after the \<^verbatim>\<open>Vdev\<close> has been constructed inside the \<^verbatim>\<open>try\<close> block. The
  handler edits the exception's message in place and logs it; control then reaches the
  final \<^verbatim>\<open>return (NULL)\<close>. (\<^verbatim>\<open>free(poolName)\<close> is memory management and is left
  out.)
\<close>

definition DevfsEvent_ReadLabel ::
  "'w env \<Rightarrow> int \<Rightarrow> ('w sys, nvlist option \<times> bool \<times> bool) state" where
  "DevfsEvent_ReadLabel env devFd = do {
     (rc, b_inuse) \<leftarrow> extern (Act_zpool_in_use devFd) (zpool_in_use env devFd);
     if rc = 0 then do {
       let inUse = b_inuse;
       (rc2, devLabel) \<leftarrow> extern (Act_zpool_read_label devFd) (zpool_read_label env devFd);
       if rc2 \<noteq> 0 \<or> devLabel = None then return (None, inUse, False)
       else (case Vdev_of_label env (the devLabel) of
           Inr vdev \<Rightarrow>
             return (devLabel, inUse, Vdev_State vdev \<noteq> VDEV_STATE_HEALTHY)
         | Inl exp \<Rightarrow> do {
             devName \<leftarrow> peek (fdevname env devFd);
             let devPath = PATH_DEV @ devName;
             let context = ''DevfsEvent::ReadLabel: '' @ devPath @ '': '';
             perform env (Act_Exception_Log (exp\<lparr>GetString := context @ GetString exp\<rparr>));
             return (None, inUse, False)
           })
     } else return (None, False, False)
   }"

text \<open>
  \<^verbatim>\<open>DevfsEvent::OnlineByLabel(devPath, physPath, devConfig)\<close>: the whole body is a
  \<^verbatim>\<open>try\<close> block whose handler logs with context; every path but the forwarded
  re-evaluation returns false.
\<close>

definition DevfsEvent_OnlineByLabel ::
  "'w env \<Rightarrow> string \<Rightarrow> string \<Rightarrow> nvlist \<Rightarrow> ('w sys, bool) state" where
  "DevfsEvent_OnlineByLabel env devPath physPath devConfig = do {
     perform env (Act_syslog LOG_INFO ''Interrogating VDEV label for %s\<newline>'' [devPath]);
     (case Vdev_of_label env devConfig of
         Inr vdev \<Rightarrow> do {
           caseFile \<leftarrow> extern (Act_CaseFile_Find (Vdev_PoolGUID vdev) (Vdev_GUID vdev))
                         (CaseFile_Find env (Vdev_PoolGUID vdev) (Vdev_GUID vdev));
           (case caseFile of
               Some c \<Rightarrow>
                 extern (Act_CaseFile_ReEvaluateDev c devPath physPath (Some vdev))
                   (CaseFile_ReEvaluateDev env c devPath physPath (Some vdev))
             | None \<Rightarrow> return False)
         }
       | Inl exp \<Rightarrow> do {
           let context = ''DevfsEvent::OnlineByLabel: '' @ devPath @ '': '';
           perform env (Act_Exception_Log (exp\<lparr>GetString := context @ GetString exp\<rparr>));
           return False
         })
   }"

text \<open>
  \<^verbatim>\<open>DevfsEvent::Process()\<close>. The result is the returned \<^verbatim>\<open>bool\<close>: whether the
  event is to be kept for replay.
\<close>

definition DevfsEvent_Process :: "'w env \<Rightarrow> event \<Rightarrow> ('w sys, bool) state" where
  "DevfsEvent_Process env ev =
     (if Value ev ''type'' \<noteq> ''CREATE'' \<or> \<not> IsDiskDev env ev then return False
      else do {
        perform env (Act_Event_Log ev LOG_INFO);
        (haveDevPath, devPath) \<leftarrow> extern (Act_DevPath ev) (DevPath env ev);
        if \<not> haveDevPath then return False
        else do {
          devFd \<leftarrow> extern (Act_open devPath) (sys_open env devPath);
          if devFd = - 1 then return False
          else do {
            (devLabel, inUse, degraded) \<leftarrow> DevfsEvent_ReadLabel env devFd;
            (havePhysPath, physPath) \<leftarrow> extern (Act_PhysicalPath ev) (PhysicalPath env ev);
            let devName = snd (DevName env ev);
            perform env (Act_close devFd);
            (if inUse \<and> devLabel \<noteq> None then do {
               _ \<leftarrow> DevfsEvent_OnlineByLabel env devPath physPath (the devLabel);
               return ()
             } else if degraded then
               perform env (Act_syslog LOG_INFO
                 ''%s is marked degraded.  Ignoring as a replace by physical path candidate.\<newline>''
                 [devName])
             else if havePhysPath \<and> IsWholeDev env ev then do {
               caseFile \<leftarrow> extern (Act_CaseFile_FindPhys physPath)
                             (CaseFile_FindPhys env physPath);
               (case caseFile of
                   None \<Rightarrow> return ()
                 | Some c \<Rightarrow> do {
                     poolStr \<leftarrow> peek (CaseFile_PoolGUIDString env c);
                     vdevStr \<leftarrow> peek (CaseFile_VdevGUIDString env c);
                     st \<leftarrow> peek (CaseFile_VdevState env c);
                     perform env (Act_syslog LOG_INFO
                       ''Found CaseFile(%s:%s:%s) - ReEvaluating\<newline>''
                       [poolStr, vdevStr, zpool_state_to_name env st]);
                     _ \<leftarrow> extern (Act_CaseFile_ReEvaluateDev c devPath physPath None)
                            (CaseFile_ReEvaluateDev env c devPath physPath None);
                     return ()
                   })
             } else return ());
            (case devLabel of
                Some l \<Rightarrow> perform env (Act_nvlist_free l)
              | None \<Rightarrow> return ());
            return False
          }
        }
      })"

section \<open>ZfsEvent\<close>

text \<open>
  \<^verbatim>\<open>ZfsEvent::TryDetach(vdev, cbArg)\<close>. The \<^verbatim>\<open>for\<close> loop over the siblings, which
  starts with \<^verbatim>\<open>cleanup = B_FALSE\<close> and leaves at the first sibling that is not a
  spare and is healthy, is \<open>TryDetach_scan\<close>.
\<close>

fun TryDetach_scan :: "Vdev list \<Rightarrow> bool" where
  "TryDetach_scan [] = False"
| "TryDetach_scan (sibling # rest) =
     (if \<not> Vdev_IsSpare sibling \<and> Vdev_State sibling = VDEV_STATE_HEALTHY then True
      else TryDetach_scan rest)"

definition ZfsEvent_TryDetach ::
  "'w env \<Rightarrow> Vdev \<Rightarrow> zpool_handle \<Rightarrow> ('w sys, bool) state" where
  "ZfsEvent_TryDetach env vdev hdl =
     (if Vdev_IsSpare vdev then do {
        let parent = Vdev_Parent env vdev;
        let siblings = Vdev_Children env parent;
        let cleanup = TryDetach_scan siblings;
        (if cleanup then do {
           poolName \<leftarrow> peek (zpool_get_name env hdl);
           perform env (Act_syslog LOG_INFO ''Detaching spare vdev %s from pool %s''
             [Vdev_Path vdev, poolName]);
           perform env (Act_zpool_vdev_detach hdl (Vdev_Path vdev))
         } else return ());
        return False
      } else return False)"

text \<open>
  Modelled from the spec: \<^verbatim>\<open>VdevIterator::Each\<close> (\<^verbatim>\<open>vdev_iterator.cc\<close>) is not
  among the sources. The walk hands every device of the pool's tree, in order, to the
  per-device predicate and ends early only when the predicate answers that it is done.
\<close>

fun VdevIterator_Each ::
  "(Vdev \<Rightarrow> zpool_handle \<Rightarrow> ('w sys, bool) state) \<Rightarrow> Vdev list \<Rightarrow> zpool_handle
     \<Rightarrow> ('w sys, unit) state" where
  "VdevIterator_Each callBack [] cbArg = return ()"
| "VdevIterator_Each callBack (vdev # rest) cbArg = do {
     done \<leftarrow> callBack vdev cbArg;
     if done then return () else VdevIterator_Each callBack rest cbArg
   }"

text \<open>\<^verbatim>\<open>ZfsEvent::CleanupSpares()\<close>.\<close>

definition ZfsEvent_CleanupSpares :: "'w env \<Rightarrow> event \<Rightarrow> ('w sys, unit) state" where
  "ZfsEvent_CleanupSpares env ev = do {
     let poolGUID = EvPoolGUID env ev;
     zpl \<leftarrow> extern (Act_ZpoolByGUID poolGUID) (ZpoolList_ZpoolByGUID env poolGUID);
     (case zpl of
         [] \<Rightarrow> return ()
       | hdl # _ \<Rightarrow> do {
           vdevs \<leftarrow> extern (Act_VdevIterator_Each hdl) (VdevIterator_vdevs env hdl);
           VdevIterator_Each (ZfsEvent_TryDetach env) vdevs hdl
         })
   }"

text \<open>
  \<^verbatim>\<open>ZfsEvent::ProcessPoolEvent()\<close>. \<open>degradedDevice\<close> starts false and is set only
  when a case matches; the case's state is read before the event is forwarded to it
  (the two reads of \<^verbatim>\<open>VdevState()\<close> in the condition see the same state and are one
  \<open>peek\<close>).
\<close>

definition ZfsEvent_ProcessPoolEvent :: "'w env \<Rightarrow> event \<Rightarrow> ('w sys, unit) state" where
  "ZfsEvent_ProcessPoolEvent env ev =
     (if Value ev ''type'' = ''misc.fs.zfs.pool_destroy'' then do {
        perform env (Act_Event_Log ev LOG_INFO);
        perform env (Act_CaseFile_ReEvaluateByGuid (EvPoolGUID env ev) ev)
      } else do {
        caseFile \<leftarrow> extern (Act_CaseFile_Find (EvPoolGUID env ev) (EvVdevGUID env ev))
                      (CaseFile_Find env (EvPoolGUID env ev) (EvVdevGUID env ev));
        degradedDevice \<leftarrow> (case caseFile of
            Some c \<Rightarrow> do {
              st \<leftarrow> peek (CaseFile_VdevState env c);
              perform env (Act_Event_Log ev LOG_INFO);
              _ \<leftarrow> extern (Act_CaseFile_ReEvaluate c ev) (CaseFile_ReEvaluate env c ev);
              return (st \<noteq> VDEV_STATE_UNKNOWN
                      \<and> vdev_state_rank st < vdev_state_rank VDEV_STATE_HEALTHY)
            }
          | None \<Rightarrow>
              if Value ev ''type'' = ''misc.fs.zfs.resilver_finish'' then do {
                perform env (Act_Event_Log ev LOG_INFO);
                ZfsEvent_CleanupSpares env ev;
                return False
              } else return False);
        if Value ev ''type'' = ''misc.fs.zfs.vdev_remove'' \<and> degradedDevice = False then do {
          perform env (Act_Event_Log ev LOG_INFO);
          perform env Act_RequestSystemRescan
        } else return ()
      })"

text \<open>
  \<^verbatim>\<open>ZfsEvent::Process()\<close>. The result is the returned \<^verbatim>\<open>bool\<close>: whether the
  event is to be kept for replay.
\<close>

definition ZfsEvent_Process :: "'w env \<Rightarrow> event \<Rightarrow> ('w sys, bool) state" where
  "ZfsEvent_Process env ev =
     (if \<not> Contains ev ''class'' \<and> \<not> Contains ev ''type'' then do {
        perform env (Act_syslog LOG_ERR ''ZfsEvent::Process: Missing class or type data.'' []);
        return False
      } else do {
        (if string_find (Value ev ''type'') ''misc.fs.zfs.config_sync'' = Some 0 then do {
           perform env (Act_ReplayUnconsumedEvents True);
           perform env (Act_CaseFile_ReEvaluateByGuid (EvPoolGUID env ev) ev)
         } else return ());
        if string_find (Value ev ''type'') ''misc.fs.zfs.'' = Some 0 then do {
          ZfsEvent_ProcessPoolEvent env ev;
          return False
        } else if \<not> Contains ev ''pool_guid'' \<or> \<not> Contains ev ''vdev_guid'' then
          return False
        else do {
          caseFile \<leftarrow> extern (Act_CaseFile_Find (EvPoolGUID env ev) (EvVdevGUID env ev))
                        (CaseFile_Find env (EvPoolGUID env ev) (EvVdevGUID env ev));
          (case caseFile of
              Some c \<Rightarrow> do {
                perform env (Act_Event_Log ev LOG_INFO);
                perform env (Act_syslog LOG_INFO ''Evaluating existing case file\<newline>'' []);
                _ \<leftarrow> extern (Act_CaseFile_ReEvaluate c ev) (CaseFile_ReEvaluate env c ev);
                return False
              }
            | None \<Rightarrow> do {
                let poolGUID = EvPoolGUID env ev;
                if string_find (Value ev ''class'') ''fs.zfs.vdev.no_replicas'' = Some 0 then do {
                  let msg = ''No replicas available for pool '' @ Guid_string env poolGUID
                            @ '', ignoring'';
                  perform env (Act_Event_Log ev LOG_INFO);
                  perform env (Act_syslog LOG_INFO ''%s'' [msg]);
                  return False
                } else do {
                  zpl \<leftarrow> extern (Act_ZpoolByGUID poolGUID) (ZpoolList_ZpoolByGUID env poolGUID);
                  (case zpl of
                      [] \<Rightarrow> do {
                        let msg = ''ZfsEvent::Process: Event for unknown pool ''
                                  @ Guid_string env poolGUID @ '' '' @ ''queued'';
                        perform env (Act_Event_Log ev LOG_INFO);
                        perform env (Act_syslog LOG_INFO ''%s'' [msg]);
                        return True
                      }
                    | front # _ \<Rightarrow> do {
                        vdevConfig \<leftarrow> extern (Act_VdevIterator_Find front (EvVdevGUID env ev))
                                        (VdevIterator_Find env front (EvVdevGUID env ev));
                        (case vdevConfig of
                            None \<Rightarrow> do {
                              let msg = ''ZfsEvent::Process: Event for unknown vdev ''
                                        @ Guid_string env (EvVdevGUID env ev) @ '' '' @ ''queued'';
                              perform env (Act_Event_Log ev LOG_INFO);
                              perform env (Act_syslog LOG_INFO ''%s'' [msg]);
                              return True
                            }
                          | Some cfg \<Rightarrow> do {
                              let vdev = Vdev_of_config env front cfg;
                              newCase \<leftarrow> extern (Act_CaseFile_Create vdev)
                                           (CaseFile_Create env vdev);
                              consumed \<leftarrow> extern (Act_CaseFile_ReEvaluate newCase ev)
                                            (CaseFile_ReEvaluate env newCase ev);
                              if consumed = False then do {
                                poolName \<leftarrow> peek (zpool_get_name env front);
                                let msg = ''ZfsEvent::Process: Unconsumed event for vdev(''
                                          @ poolName @ '','' @ Guid_string env (Vdev_GUID vdev)
                                          @ '') '' @ ''queued'';
                                perform env (Act_Event_Log ev LOG_INFO);
                                perform env (Act_syslog LOG_INFO ''%s'' [msg]);
                                return True
                              } else return False
                            })
                      })
                }
              })
        }
      })"

section \<open>Vocabulary of the properties\<close>

text \<open>The calls a computation makes when it is run from a given state.\<close>

definition calls :: "('w sys, 'a) state \<Rightarrow> 'w sys \<Rightarrow> action list" where
  "calls m s = drop (length (trace s)) (trace (snd (run_state m s)))"

text \<open>Kinds of call: a case lookup by physical path, a re-evaluation request of any
  form, the creation of a case, a detach command.\<close>

fun is_phys_lookup :: "action \<Rightarrow> bool" where
  "is_phys_lookup (Act_CaseFile_FindPhys physPath) = True"
| "is_phys_lookup _ = False"

fun is_reevaluation :: "action \<Rightarrow> bool" where
  "is_reevaluation (Act_CaseFile_ReEvaluate c ev) = True"
| "is_reevaluation (Act_CaseFile_ReEvaluateDev c devPath physPath vdev) = True"
| "is_reevaluation (Act_CaseFile_ReEvaluateByGuid poolGUID ev) = True"
| "is_reevaluation _ = False"

fun is_case_create :: "action \<Rightarrow> bool" where
  "is_case_create (Act_CaseFile_Create vdev) = True"
| "is_case_create _ = False"

fun is_detach :: "action \<Rightarrow> bool" where
  "is_detach (Act_zpool_vdev_detach hdl path) = True"
| "is_detach _ = False"

text \<open>
  A vdev-scoped subsystem event: one that is not malformed (it has a class or a type
  tag) and whose type does not begin with the storage-subsystem prefix, so that routing
  gets past the pool-event handler.
\<close>

definition vdev_scoped :: "event \<Rightarrow> bool" where
  "vdev_scoped ev \<longleftrightarrow>
     (Contains ev ''class'' \<or> Contains ev ''type'')
     \<and> \<not> prefix ''misc.fs.zfs.'' (Value ev ''type'')"

text \<open>
  The condition of the spare reclaimer, in the words of its description: the device is
  flagged as a spare and at least one child of its parent is both not a spare and
  healthy.
\<close>

definition redundant_spare :: "'w env \<Rightarrow> Vdev \<Rightarrow> bool" where
  "redundant_spare env vdev \<longleftrightarrow>
     Vdev_IsSpare vdev
     \<and> (\<exists>sibling \<in> set (Vdev_Children env (Vdev_Parent env vdev)).
           \<not> Vdev_IsSpare sibling \<and> Vdev_State sibling = VDEV_STATE_HEALTHY)"

section \<open>Concrete scenarios\<close>

text \<open>
  A system in which nothing is present: no device opens, no label reads, no pool is
  visible, no case is open, and calls leave the (trivial) outside state alone. The
  scenarios below switch on what they need.
\<close>

definition nonexistent_vdev :: Vdev where
  "nonexistent_vdev =
     \<lparr>Vdev_GUID = 0, Vdev_PoolGUID = 0, Vdev_State = VDEV_STATE_UNKNOWN,
      Vdev_Path = [], Vdev_IsSpare = False\<rparr>"

definition quiet_env :: "unit env" where
  "quiet_env =
     \<lparr>IsDiskDev = (\<lambda>ev. False),
      IsWholeDev = (\<lambda>ev. False),
      DevName = (\<lambda>ev. (False, [])),
      DevPath = (\<lambda>ev w. ((False, []), w)),
      PhysicalPath = (\<lambda>ev w. ((False, []), w)),
      EvPoolGUID = (\<lambda>ev. 0),
      EvVdevGUID = (\<lambda>ev. 0),
      sys_open = (\<lambda>path w. (- 1, w)),
      fdevname = (\<lambda>fd w. []),
      zpool_in_use = (\<lambda>fd w. ((- 1, False), w)),
      zpool_read_label = (\<lambda>fd w. ((- 1, None), w)),
      Vdev_of_label = (\<lambda>label. Inl \<lparr>GetString = ''Unable to extract vdev GUID''\<rparr>),
      Vdev_of_config = (\<lambda>hdl config. nonexistent_vdev),
      Vdev_Parent = (\<lambda>vdev. nonexistent_vdev),
      Vdev_Children = (\<lambda>vdev. []),
      CaseFile_Find = (\<lambda>poolGUID vdevGUID w. (None, w)),
      CaseFile_FindPhys = (\<lambda>physPath w. (None, w)),
      CaseFile_Create = (\<lambda>vdev w. (0, w)),
      CaseFile_ReEvaluate = (\<lambda>c ev w. (True, w)),
      CaseFile_ReEvaluateDev = (\<lambda>c devPath physPath vdev w. (True, w)),
      CaseFile_VdevState = (\<lambda>c w. VDEV_STATE_UNKNOWN),
      CaseFile_PoolGUIDString = (\<lambda>c w. []),
      CaseFile_VdevGUIDString = (\<lambda>c w. []),
      ZpoolList_ZpoolByGUID = (\<lambda>poolGUID w. ([], w)),
      VdevIterator_Find = (\<lambda>hdl vdevGUID w. (None, w)),
      VdevIterator_vdevs = (\<lambda>hdl w. ([], w)),
      zpool_get_name = (\<lambda>hdl w. []),
      zpool_state_to_name = (\<lambda>st. []),
      Guid_string = (\<lambda>g. []),
      effect = (\<lambda>a w. w)\<rparr>"

definition start :: "unit sys" where
  "start = \<lparr>world = (), trace = []\<rparr>"

text \<open>
  Arrival of disk \<^verbatim>\<open>da1\<close>. Its label reads, names vdev 7 of pool 42 in degraded
  state, and no live pool claims the device; a case is open for its physical slot.
\<close>

definition arrival_da1 :: event where
  "arrival_da1 =
     \<lparr>nvPairs = [''type'' \<mapsto> ''CREATE'', ''cdev'' \<mapsto> ''da1''],
      eventString = ''!system=DEVFS subsystem=CDEV type=CREATE cdev=da1''\<rparr>"

definition label_da1 :: Vdev where
  "label_da1 =
     \<lparr>Vdev_GUID = 7, Vdev_PoolGUID = 42, Vdev_State = VDEV_STATE_DEGRADED,
      Vdev_Path = ''/dev/da1'', Vdev_IsSpare = False\<rparr>"

definition degraded_arrival_env :: "unit env" where
  "degraded_arrival_env =
     quiet_env
       \<lparr>IsDiskDev := (\<lambda>ev. True),
        IsWholeDev := (\<lambda>ev. True),
        DevName := (\<lambda>ev. (True, ''da1'')),
        DevPath := (\<lambda>ev w. ((True, ''/dev/da1''), w)),
        PhysicalPath := (\<lambda>ev w. ((True, ''enc@n5000/slot@7''), w)),
        sys_open := (\<lambda>path w. (3, w)),
        fdevname := (\<lambda>fd w. ''da1''),
        zpool_in_use := (\<lambda>fd w. ((0, False), w)),
        zpool_read_label := (\<lambda>fd w. ((0, Some 1), w)),
        Vdev_of_label := (\<lambda>label. Inr label_da1),
        CaseFile_FindPhys := (\<lambda>physPath w. (Some 5, w))\<rparr>"

text \<open>The same arrival, with a label the \<^verbatim>\<open>Vdev\<close> constructor rejects.\<close>

definition bad_label_env :: "unit env" where
  "bad_label_env =
     degraded_arrival_env
       \<lparr>Vdev_of_label := (\<lambda>label. Inl \<lparr>GetString = ''Unable to extract vdev GUID''\<rparr>)\<rparr>"

text \<open>Removal of a device node: not a \<^verbatim>\<open>CREATE\<close> event.\<close>

definition departure_da1 :: event where
  "departure_da1 =
     \<lparr>nvPairs = [''type'' \<mapsto> ''DESTROY'', ''cdev'' \<mapsto> ''da1''],
      eventString = ''!system=DEVFS subsystem=CDEV type=DESTROY cdev=da1''\<rparr>"

text \<open>
  A vdev-scoped notification for vdev 3 of pool 9, for which no case is open. Pool 9
  is visible under handle 1 and holds vdev 3; the case created for it does not consume
  the event.
\<close>

definition vdev_event :: event where
  "vdev_event =
     \<lparr>nvPairs = [''class'' \<mapsto> ''ereport.fs.zfs.io'', ''pool_guid'' \<mapsto> ''9'',
                 ''vdev_guid'' \<mapsto> ''3''],
      eventString = ''!system=ZFS class=ereport.fs.zfs.io pool_guid=9 vdev_guid=3''\<rparr>"

definition vdev_3 :: Vdev where
  "vdev_3 =
     \<lparr>Vdev_GUID = 3, Vdev_PoolGUID = 9, Vdev_State = VDEV_STATE_FAULTED,
      Vdev_Path = ''/dev/da3'', Vdev_IsSpare = False\<rparr>"

definition pool_9_env :: "unit env" where
  "pool_9_env =
     quiet_env
       \<lparr>EvPoolGUID := (\<lambda>ev. 9),
        EvVdevGUID := (\<lambda>ev. 3),
        ZpoolList_ZpoolByGUID := (\<lambda>poolGUID w. (if poolGUID = 9 then [1] else [], w)),
        VdevIterator_Find := (\<lambda>hdl vdevGUID w. (if vdevGUID = 3 then Some 2 else None, w)),
        Vdev_of_config := (\<lambda>hdl config. vdev_3),
        CaseFile_Create := (\<lambda>vdev w. (4, w)),
        CaseFile_ReEvaluate := (\<lambda>c ev w. (False, w)),
        zpool_get_name := (\<lambda>hdl w. ''tank''),
        Guid_string := (\<lambda>g. if g = 9 then ''9'' else ''3'')\<rparr>"

text \<open>The no-surviving-replicas report for the same vdev.\<close>

definition no_replicas_event :: event where
  "no_replicas_event =
     \<lparr>nvPairs = [''class'' \<mapsto> ''fs.zfs.vdev.no_replicas'', ''pool_guid'' \<mapsto> ''9'',
                 ''vdev_guid'' \<mapsto> ''3''],
      eventString = ''!system=ZFS class=fs.zfs.vdev.no_replicas pool_guid=9 vdev_guid=3''\<rparr>"

text \<open>A vdev-scoped notification that names no vdev.\<close>

definition untagged_event :: event where
  "untagged_event =
     \<lparr>nvPairs = [''class'' \<mapsto> ''ereport.fs.zfs.io'', ''pool_guid'' \<mapsto> ''9''],
      eventString = ''!system=ZFS class=ereport.fs.zfs.io pool_guid=9''\<rparr>"

text \<open>A configuration-synchronized checkpoint and a vdev-removed notification.\<close>

definition config_sync_event :: event where
  "config_sync_event =
     \<lparr>nvPairs = [''type'' \<mapsto> ''misc.fs.zfs.config_sync'', ''pool_guid'' \<mapsto> ''9''],
      eventString = ''!system=ZFS type=misc.fs.zfs.config_sync pool_guid=9''\<rparr>"

definition vdev_remove_event :: event where
  "vdev_remove_event =
     \<lparr>nvPairs = [''type'' \<mapsto> ''misc.fs.zfs.vdev_remove'', ''pool_guid'' \<mapsto> ''9'',
                 ''vdev_guid'' \<mapsto> ''3''],
      eventString = ''!system=ZFS type=misc.fs.zfs.vdev_remove pool_guid=9 vdev_guid=3''\<rparr>"

text \<open>A system in which case 4 is open for vdev 3 of pool 9 and tracks it as faulted.\<close>

definition faulted_case_env :: "unit env" where
  "faulted_case_env =
     pool_9_env
       \<lparr>CaseFile_Find := (\<lambda>poolGUID vdevGUID w. (Some 4, w)),
        CaseFile_VdevState := (\<lambda>c w. VDEV_STATE_FAULTED)\<rparr>"

text \<open>
  A mirror with children spare S, faulted F and healthy H, and the same mirror
  without H.
\<close>

definition spare_S :: Vdev where
  "spare_S =
     \<lparr>Vdev_GUID = 11, Vdev_PoolGUID = 9, Vdev_State = VDEV_STATE_HEALTHY,
      Vdev_Path = ''/dev/da11'', Vdev_IsSpare = True\<rparr>"

definition faulted_F :: Vdev where
  "faulted_F =
     \<lparr>Vdev_GUID = 12, Vdev_PoolGUID = 9, Vdev_State = VDEV_STATE_FAULTED,
      Vdev_Path = ''/dev/da12'', Vdev_IsSpare = False\<rparr>"

definition healthy_H :: Vdev where
  "healthy_H =
     \<lparr>Vdev_GUID = 13, Vdev_PoolGUID = 9, Vdev_State = VDEV_STATE_HEALTHY,
      Vdev_Path = ''/dev/da13'', Vdev_IsSpare = False\<rparr>"

definition mirror_SFH_env :: "unit env" where
  "mirror_SFH_env =
     quiet_env
       \<lparr>Vdev_Children := (\<lambda>vdev. [spare_S, faulted_F, healthy_H]),
        zpool_get_name := (\<lambda>hdl w. ''tank'')\<rparr>"

definition mirror_SF_env :: "unit env" where
  "mirror_SF_env =
     quiet_env
       \<lparr>Vdev_Children := (\<lambda>vdev. [spare_S, faulted_F]),
        zpool_get_name := (\<lambda>hdl w. ''tank'')\<rparr>"

section \<open>Auxiliary facts\<close>

lemma run_state_extern [simp]:
  "run_state (extern a f) s =
     (case f (world s) of (r, w') \<Rightarrow> (r, \<lparr>world = w', trace = trace s @ [a]\<rparr>))"
  by (simp add: extern_def)

lemma run_state_perform [simp]:
  "run_state (perform env a) s =
     ((), \<lparr>world = effect env a (world s), trace = trace s @ [a]\<rparr>)"
  by (simp add: perform_def)

lemma run_state_peek [simp]: "run_state (peek f) s = (f (world s), s)"
  by (simp add: peek_def)

text \<open>\<^verbatim>\<open>s.find(t) == 0\<close> says that \<open>t\<close> is a prefix of \<open>s\<close>.\<close>

lemma string_find_zero_iff: "string_find hay needle = Some 0 \<longleftrightarrow> prefix needle hay"
  by (cases hay) auto

lemma Value_nonempty_Contains: "Value ev k \<noteq> [] \<Longrightarrow> Contains ev k"
  by (auto simp: Value_def Contains_def split: option.splits)

lemma not_config_sync:
  assumes "\<not> prefix ''misc.fs.zfs.'' t"
  shows "\<not> prefix ''misc.fs.zfs.config_sync'' t"
proof
  assume "prefix ''misc.fs.zfs.config_sync'' t"
  moreover have "prefix ''misc.fs.zfs.'' ''misc.fs.zfs.config_sync''" by simp
  ultimately have "prefix ''misc.fs.zfs.'' t" by (rule prefix_order.trans[rotated])
  with assms show False by simp
qed

text \<open>What \<open>ReadLabel\<close> and \<open>OnlineByLabel\<close> add to the record of calls.\<close>

lemma ReadLabel_trace:
  "\<exists>T. trace (snd (run_state (DevfsEvent_ReadLabel env devFd) s)) = trace s @ T
     \<and> (\<forall>a \<in> set T. a = Act_zpool_in_use devFd \<or> a = Act_zpool_read_label devFd
                      \<or> (\<exists>e. a = Act_Exception_Log e))"
  unfolding DevfsEvent_ReadLabel_def
  by (auto split: prod.splits sum.splits)

lemma OnlineByLabel_trace:
  "\<exists>T. trace (snd (run_state (DevfsEvent_OnlineByLabel env devPath physPath l) s)) = trace s @ T
     \<and> (\<forall>a \<in> set T. a = Act_syslog LOG_INFO ''Interrogating VDEV label for %s\<newline>'' [devPath]
                      \<or> (\<exists>p v. a = Act_CaseFile_Find p v)
                      \<or> (\<exists>c v. a = Act_CaseFile_ReEvaluateDev c devPath physPath (Some v))
                      \<or> (\<exists>e. a = Act_Exception_Log e))"
  unfolding DevfsEvent_OnlineByLabel_def
  by (auto split: prod.splits sum.splits option.splits)

lemma ReadLabel_degraded_label:
  assumes "run_state (DevfsEvent_ReadLabel env devFd) s = ((devLabel, inUse, degraded), s')"
  shows "devLabel = None \<longrightarrow> \<not> degraded"
  using assms unfolding DevfsEvent_ReadLabel_def
  by (auto split: prod.splits if_splits sum.splits)

section \<open>Device arrival\<close>

text \<open>
  C1. A device-arrival event that gets as far as reading the label, and whose label
  reports the device degraded and not in use by a live pool, is logged and dropped:
  \<open>Process\<close> returns false, the calls after \<open>ReadLabel\<close> are the physical-path query
  on the event, \<^verbatim>\<open>close\<close>, the "marked degraded" log line and the release of the label,
  and no call of the whole run is a case lookup by physical path or a re-evaluation
  request. The collaborators are arbitrary, so this holds also when a case is open for
  the device's physical path.
\<close>

theorem degraded_arrival_not_matched_by_physical_path:
  assumes create: "Value ev ''type'' = ''CREATE''" and disk: "IsDiskDev env ev"
    and path: "DevPath env ev (effect env (Act_Event_Log ev LOG_INFO) (world s))
                 = ((True, devPath), w1)"
    and opened: "sys_open env devPath w1 = (devFd, w2)" "devFd \<noteq> - 1"
    and label: "run_state (DevfsEvent_ReadLabel env devFd)
                  \<lparr>world = w2,
                   trace = trace s @ [Act_Event_Log ev LOG_INFO, Act_DevPath ev, Act_open devPath]\<rparr>
                 = ((devLabel, False, True), s3)"
  shows "fst (run_state (DevfsEvent_Process env ev) s) = False
     \<and> (\<exists>l. devLabel = Some l
           \<and> trace (snd (run_state (DevfsEvent_Process env ev) s)) =
               trace s3 @
               [Act_PhysicalPath ev, Act_close devFd,
                Act_syslog LOG_INFO
                  ''%s is marked degraded.  Ignoring as a replace by physical path candidate.\<newline>''
                  [snd (DevName env ev)],
                Act_nvlist_free l])
     \<and> (\<forall>a \<in> set (calls (DevfsEvent_Process env ev) s).
           \<not> is_phys_lookup a \<and> \<not> is_reevaluation a)"
proof -
  from ReadLabel_degraded_label[OF label] obtain l where l: "devLabel = Some l"
    by auto
  from ReadLabel_trace[of env devFd
      "\<lparr>world = w2,
        trace = trace s @ [Act_Event_Log ev LOG_INFO, Act_DevPath ev, Act_open devPath]\<rparr>"]
  obtain T where T: "trace s3 = trace s @ [Act_Event_Log ev LOG_INFO, Act_DevPath ev, Act_open devPath] @ T"
     "\<forall>a \<in> set T. a = Act_zpool_in_use devFd \<or> a = Act_zpool_read_label devFd
                      \<or> (\<exists>e. a = Act_Exception_Log e)"
    using label by auto
  have tr: "trace (snd (run_state (DevfsEvent_Process env ev) s)) =
               trace s3 @
               [Act_PhysicalPath ev, Act_close devFd,
                Act_syslog LOG_INFO
                  ''%s is marked degraded.  Ignoring as a replace by physical path candidate.\<newline>''
                  [snd (DevName env ev)],
                Act_nvlist_free l]"
    unfolding DevfsEvent_Process_def
    using create disk path opened label l by (simp split: prod.splits)
  have res: "fst (run_state (DevfsEvent_Process env ev) s) = False"
    by (simp add: DevfsEvent_Process_def split: prod.splits option.splits)
  have "\<forall>a \<in> set (calls (DevfsEvent_Process env ev) s).
           \<not> is_phys_lookup a \<and> \<not> is_reevaluation a"
    unfolding calls_def tr T(1) using T(2) by auto
  with tr res l show ?thesis by simp
qed

theorem degraded_arrival_not_matched_by_physical_path_witness:
  "fst (CaseFile_FindPhys degraded_arrival_env ''enc@n5000/slot@7'' ()) = Some 5
   \<and> run_state (DevfsEvent_ReadLabel degraded_arrival_env 3)
        \<lparr>world = (),
         trace = [Act_Event_Log arrival_da1 LOG_INFO, Act_DevPath arrival_da1,
                  Act_open ''/dev/da1'']\<rparr>
       = ((Some 1, False, True),
          \<lparr>world = (),
           trace = [Act_Event_Log arrival_da1 LOG_INFO, Act_DevPath arrival_da1,
                    Act_open ''/dev/da1'', Act_zpool_in_use 3, Act_zpool_read_label 3]\<rparr>)
   \<and> fst (run_state (DevfsEvent_Process degraded_arrival_env arrival_da1) start) = False
   \<and> trace (snd (run_state (DevfsEvent_Process degraded_arrival_env arrival_da1) start)) =
       [Act_Event_Log arrival_da1 LOG_INFO, Act_DevPath arrival_da1, Act_open ''/dev/da1'',
        Act_zpool_in_use 3, Act_zpool_read_label 3, Act_PhysicalPath arrival_da1,
        Act_close 3,
        Act_syslog LOG_INFO
          ''%s is marked degraded.  Ignoring as a replace by physical path candidate.\<newline>''
          [''da1''],
        Act_nvlist_free 1]
   \<and> filter (\<lambda>a. is_phys_lookup a \<or> is_reevaluation a)
        (calls (DevfsEvent_Process degraded_arrival_env arrival_da1) start) = []"
proof -
  have create: "Value arrival_da1 ''type'' = ''CREATE''"
    by (simp add: Value_def arrival_da1_def)
  have disk: "IsDiskDev degraded_arrival_env arrival_da1"
    by (simp add: degraded_arrival_env_def)
  have path: "DevPath degraded_arrival_env arrival_da1
                (effect degraded_arrival_env (Act_Event_Log arrival_da1 LOG_INFO) (world start))
              = ((True, ''/dev/da1''), ())"
    by (simp add: degraded_arrival_env_def)
  have opened: "sys_open degraded_arrival_env ''/dev/da1'' () = (3, ())" "(3::int) \<noteq> - 1"
    by (simp_all add: degraded_arrival_env_def)
  have label: "run_state (DevfsEvent_ReadLabel degraded_arrival_env 3)
        \<lparr>world = (),
         trace = trace start @ [Act_Event_Log arrival_da1 LOG_INFO, Act_DevPath arrival_da1,
                  Act_open ''/dev/da1'']\<rparr>
       = ((Some 1, False, True),
          \<lparr>world = (),
           trace = [Act_Event_Log arrival_da1 LOG_INFO, Act_DevPath arrival_da1,
                    Act_open ''/dev/da1'', Act_zpool_in_use 3, Act_zpool_read_label 3]\<rparr>)"
    by (simp add: DevfsEvent_ReadLabel_def degraded_arrival_env_def label_da1_def start_def)
  have phys: "fst (CaseFile_FindPhys degraded_arrival_env ''enc@n5000/slot@7'' ()) = Some 5"
    by (simp add: degraded_arrival_env_def)
  have name: "snd (DevName degraded_arrival_env arrival_da1) = ''da1''"
    by (simp add: degraded_arrival_env_def)
  from degraded_arrival_not_matched_by_physical_path[OF create disk path opened label]
  show ?thesis
    using phys label name by (simp add: start_def filter_empty_conv)
qed

text \<open>
  C5. \<open>DevfsEvent::Process\<close> returns false for every event, every collaborator and
  every state; and when the type tag is not exactly \<^verbatim>\<open>CREATE\<close> or the device is not
  a disk, it returns false with the state untouched: no call is recorded and the
  outside state is the one it started from.
\<close>

theorem DevfsEvent_Process_never_retains:
  "fst (run_state (DevfsEvent_Process env ev) s) = False
   \<and> (Value ev ''type'' \<noteq> ''CREATE'' \<or> \<not> IsDiskDev env ev
        \<longrightarrow> run_state (DevfsEvent_Process env ev) s = (False, s))"
proof
  show "fst (run_state (DevfsEvent_Process env ev) s) = False"
    by (simp add: DevfsEvent_Process_def split: prod.splits option.splits)
next
  show "Value ev ''type'' \<noteq> ''CREATE'' \<or> \<not> IsDiskDev env ev
        \<longrightarrow> run_state (DevfsEvent_Process env ev) s = (False, s)"
    by (auto simp add: DevfsEvent_Process_def)
qed

theorem DevfsEvent_Process_never_retains_witness:
  "Value departure_da1 ''type'' = ''DESTROY''
   \<and> IsDiskDev degraded_arrival_env departure_da1
   \<and> run_state (DevfsEvent_Process degraded_arrival_env departure_da1) start = (False, start)
   \<and> fst (run_state (DevfsEvent_Process degraded_arrival_env arrival_da1) start) = False
   \<and> calls (DevfsEvent_Process degraded_arrival_env departure_da1) start = []"
proof -
  have ty: "Value departure_da1 ''type'' = ''DESTROY''"
    by (simp add: Value_def departure_da1_def)
  have disk: "IsDiskDev degraded_arrival_env departure_da1"
    by (simp add: degraded_arrival_env_def)
  from DevfsEvent_Process_never_retains[of degraded_arrival_env departure_da1 start]
  have r: "run_state (DevfsEvent_Process degraded_arrival_env departure_da1) start = (False, start)"
    using ty by simp
  from DevfsEvent_Process_never_retains[of degraded_arrival_env arrival_da1 start]
  have a: "fst (run_state (DevfsEvent_Process degraded_arrival_env arrival_da1) start) = False"
    by simp
  show ?thesis using ty disk r a by (simp add: calls_def)
qed

text \<open>
  C7. When the in-use query and the label read both succeed and the \<^verbatim>\<open>Vdev\<close>
  constructor throws on the label, \<open>ReadLabel\<close> returns normally with the absent-label
  result (\<^verbatim>\<open>NULL\<close>, degraded false): the one call it makes after the label read is the
  logging of the exception, whose message has been prefixed with
  \<^verbatim>\<open>DevfsEvent::ReadLabel: \<close>, the device path (\<^verbatim>\<open>_PATH_DEV\<close> and the name of the
  descriptor's device) and \<^verbatim>\<open>: \<close>.
\<close>

theorem ReadLabel_catches_parse_error:
  assumes "zpool_in_use env devFd (world s) = ((0, b_inuse), w1)"
    and "zpool_read_label env devFd w1 = ((0, Some devLabel), w2)"
    and "Vdev_of_label env devLabel = Inl exp"
  shows "run_state (DevfsEvent_ReadLabel env devFd) s =
     ((None, b_inuse, False),
      \<lparr>world = effect env (Act_Exception_Log
                  (exp\<lparr>GetString := ''DevfsEvent::ReadLabel: '' @ (PATH_DEV @ fdevname env devFd w2)
                                      @ '': '' @ GetString exp\<rparr>)) w2,
       trace = trace s @
         [Act_zpool_in_use devFd, Act_zpool_read_label devFd,
          Act_Exception_Log
            (exp\<lparr>GetString := ''DevfsEvent::ReadLabel: '' @ (PATH_DEV @ fdevname env devFd w2)
                                @ '': '' @ GetString exp\<rparr>)]\<rparr>)"
  unfolding DevfsEvent_ReadLabel_def using assms by simp

theorem ReadLabel_catches_parse_error_witness:
  "zpool_in_use bad_label_env 3 (world start) = ((0, False), ())
   \<and> zpool_read_label bad_label_env 3 () = ((0, Some 1), ())
   \<and> Vdev_of_label bad_label_env 1 = Inl \<lparr>GetString = ''Unable to extract vdev GUID''\<rparr>
   \<and> run_state (DevfsEvent_ReadLabel bad_label_env 3) start =
       ((None, False, False),
        \<lparr>world = (),
         trace = [Act_zpool_in_use 3, Act_zpool_read_label 3,
                  Act_Exception_Log
                    \<lparr>GetString =
                       ''DevfsEvent::ReadLabel: /dev/da1: Unable to extract vdev GUID''\<rparr>]\<rparr>)"
proof -
  have h1: "zpool_in_use bad_label_env 3 (world start) = ((0, False), ())"
    by (simp add: bad_label_env_def degraded_arrival_env_def)
  have h2: "zpool_read_label bad_label_env 3 () = ((0, Some 1), ())"
    by (simp add: bad_label_env_def degraded_arrival_env_def)
  have h3: "Vdev_of_label bad_label_env 1 = Inl \<lparr>GetString = ''Unable to extract vdev GUID''\<rparr>"
    by (simp add: bad_label_env_def)
  have n: "fdevname bad_label_env 3 () = ''da1''"
    by (simp add: bad_label_env_def degraded_arrival_env_def)
  from ReadLabel_catches_parse_error[OF h1 h2 h3]
  show ?thesis
    using h1 h2 h3 n by (simp add: start_def PATH_DEV_def)
qed

text \<open>What \<open>Process\<close> records once the label has been read.\<close>

lemma Process_after_label:
  assumes create: "Value ev ''type'' = ''CREATE''" and disk: "IsDiskDev env ev"
    and path: "DevPath env ev (effect env (Act_Event_Log ev LOG_INFO) (world s))
                 = ((True, devPath), w1)"
    and opened: "sys_open env devPath w1 = (devFd, w2)" "devFd \<noteq> - 1"
    and label: "run_state (DevfsEvent_ReadLabel env devFd)
                  \<lparr>world = w2,
                   trace = trace s @ [Act_Event_Log ev LOG_INFO, Act_DevPath ev, Act_open devPath]\<rparr>
                 = ((devLabel, inUse, degraded), s3)"
    and logged: "Act_syslog LOG_INFO
                  ''%s is marked degraded.  Ignoring as a replace by physical path candidate.\<newline>''
                  [devName] \<in> set (calls (DevfsEvent_Process env ev) s)"
  shows "\<not> inUse \<and> degraded"
proof -
  define dmsg where "dmsg = Act_syslog LOG_INFO
     ''%s is marked degraded.  Ignoring as a replace by physical path candidate.\<newline>''
     [devName]"
  define final where "final = trace (snd (run_state (DevfsEvent_Process env ev) s))"
  from ReadLabel_trace[of env devFd
      "\<lparr>world = w2,
        trace = trace s @ [Act_Event_Log ev LOG_INFO, Act_DevPath ev, Act_open devPath]\<rparr>"]
  obtain T where T: "trace s3 = trace s @ [Act_Event_Log ev LOG_INFO, Act_DevPath ev, Act_open devPath] @ T"
     "\<forall>a \<in> set T. a = Act_zpool_in_use devFd \<or> a = Act_zpool_read_label devFd
                      \<or> (\<exists>e. a = Act_Exception_Log e)"
    using label by auto
  have nT: "dmsg \<notin> set T"
  proof
    assume "dmsg \<in> set T"
    from T(2)[rule_format, OF this] show False
      unfolding dmsg_def by simp
  qed
  obtain havePhys physPath w4 where phys: "PhysicalPath env ev (world s3) = ((havePhys, physPath), w4)"
    by (metis prod.exhaust)
  let ?s5 = "\<lparr>world = effect env (Act_close devFd) w4,
               trace = trace s3 @ [Act_PhysicalPath ev, Act_close devFd]\<rparr>"
  have dm: "dmsg \<in> set (drop (length (trace s)) final)"
    using logged unfolding calls_def dmsg_def final_def .
  have absent: "False"
    if "final = trace s3 @ [Act_PhysicalPath ev, Act_close devFd] @ T3" and "dmsg \<notin> set T3"
    for T3
  proof -
    have other: "dmsg \<noteq> Act_PhysicalPath ev" "dmsg \<noteq> Act_close devFd"
      "dmsg \<noteq> Act_Event_Log ev LOG_INFO" "dmsg \<noteq> Act_DevPath ev"
      "dmsg \<noteq> Act_open devPath"
      unfolding dmsg_def by simp_all
    have "dmsg \<in> set T \<union> set T3"
      using dm other unfolding that(1) T(1) by auto
    then show False using nT that(2) by blast
  qed
  have branch: "\<not> (inUse \<and> devLabel \<noteq> None) \<and> degraded"
  proof (rule ccontr)
    assume neg: "\<not> (\<not> (inUse \<and> devLabel \<noteq> None) \<and> degraded)"
    show False
    proof (cases "inUse \<and> devLabel \<noteq> None")
      case True
      then obtain l where l: "devLabel = Some l" by auto
      obtain r s6 where run: "run_state (DevfsEvent_OnlineByLabel env devPath physPath l) ?s5 = (r, s6)"
        by (metis prod.exhaust)
      from OnlineByLabel_trace[of env devPath physPath l ?s5]
      obtain T2 where T2: "trace s6 = trace s3 @ [Act_PhysicalPath ev, Act_close devFd] @ T2"
        "\<forall>a \<in> set T2. a = Act_syslog LOG_INFO ''Interrogating VDEV label for %s\<newline>'' [devPath]
                      \<or> (\<exists>p v. a = Act_CaseFile_Find p v)
                      \<or> (\<exists>c v. a = Act_CaseFile_ReEvaluateDev c devPath physPath (Some v))
                      \<or> (\<exists>e. a = Act_Exception_Log e)"
        using run by auto
      have tr: "final = trace s3 @ [Act_PhysicalPath ev, Act_close devFd] @ (T2 @ [Act_nvlist_free l])"
        unfolding final_def DevfsEvent_Process_def
        using True by (simp add: create disk path opened label phys l run T2(1))
      have "dmsg \<notin> set T2"
      proof
        assume "dmsg \<in> set T2"
        from T2(2)[rule_format, OF this] show False
          unfolding dmsg_def by simp
      qed
      moreover have "dmsg \<noteq> Act_nvlist_free l"
        unfolding dmsg_def by simp
      ultimately have "dmsg \<notin> set (T2 @ [Act_nvlist_free l])"
        by simp
      with tr show False by (rule absent)
    next
      case False
      with neg have nd: "\<not> degraded" by blast
      define rel where "rel = (case devLabel of Some l \<Rightarrow> [Act_nvlist_free l] | None \<Rightarrow> [])"
      have nrel: "dmsg \<notin> set rel"
        unfolding rel_def dmsg_def by (cases devLabel) simp_all
      show False
      proof (cases "havePhys \<and> IsWholeDev env ev")
        case noslot: False
        have "final = trace s3 @ [Act_PhysicalPath ev, Act_close devFd] @ rel"
          unfolding final_def rel_def DevfsEvent_Process_def
          using False nd
          by (cases devLabel) (simp_all add: create disk path opened label phys noslot)
        then show False using nrel by (rule absent)
      next
        case slot: True
        obtain caseFile w6 where find: "CaseFile_FindPhys env physPath (world ?s5) = (caseFile, w6)"
          by (metis prod.exhaust)
        show False
        proof (cases caseFile)
          case None
          have "final = trace s3 @ [Act_PhysicalPath ev, Act_close devFd]
              @ (Act_CaseFile_FindPhys physPath # rel)"
            unfolding final_def rel_def DevfsEvent_Process_def
            using False nd find None
            by (cases devLabel) (simp_all add: create disk path opened label phys slot)
          moreover have "dmsg \<notin> set (Act_CaseFile_FindPhys physPath # rel)"
            using nrel unfolding dmsg_def by simp
          ultimately show False by (rule absent)
        next
          case (Some c)
          define found where "found = Act_syslog LOG_INFO
              ''Found CaseFile(%s:%s:%s) - ReEvaluating\<newline>''
              [CaseFile_PoolGUIDString env c w6, CaseFile_VdevGUIDString env c w6,
               zpool_state_to_name env (CaseFile_VdevState env c w6)]"
          obtain r w7 where re: "CaseFile_ReEvaluateDev env c devPath physPath None
              (effect env found w6) = (r, w7)"
            by (metis prod.exhaust)
          have "final = trace s3 @ [Act_PhysicalPath ev, Act_close devFd]
              @ ([Act_CaseFile_FindPhys physPath, found,
                  Act_CaseFile_ReEvaluateDev c devPath physPath None] @ rel)"
            unfolding final_def rel_def DevfsEvent_Process_def
            using False nd find Some re[unfolded found_def]
            by (cases devLabel) (simp_all add: create disk path opened label phys slot found_def)
          moreover have "dmsg \<noteq> found"
            unfolding dmsg_def found_def by simp
          then have "dmsg \<notin> set ([Act_CaseFile_FindPhys physPath, found,
                  Act_CaseFile_ReEvaluateDev c devPath physPath None] @ rel)"
            using nrel unfolding dmsg_def by simp
          ultimately show False by (rule absent)
        qed
      qed
    qed
  qed
  with ReadLabel_degraded_label[OF label] show ?thesis by auto
qed

text \<open>
  C10. Whenever \<open>ReadLabel\<close> returns no label, its degraded flag is false. Hence the
  degraded-device branch of \<open>Process\<close> (the one that writes the "marked degraded" log
  line) is taken only in a run in which the device path resolved, the device opened,
  and \<open>ReadLabel\<close>, called on the opened descriptor, returned a label with the in-use
  flag false and the degraded flag true.
\<close>

theorem ReadLabel_absent_label_not_degraded:
  "(run_state (DevfsEvent_ReadLabel env devFd) s = ((devLabel, inUse, degraded), s')
      \<longrightarrow> devLabel = None \<longrightarrow> \<not> degraded)
   \<and> (Act_syslog LOG_INFO
         ''%s is marked degraded.  Ignoring as a replace by physical path candidate.\<newline>''
         [devName] \<in> set (calls (DevfsEvent_Process env ev) s0)
      \<longrightarrow> (\<exists>devPath w1 fd w2 l s3.
             DevPath env ev (effect env (Act_Event_Log ev LOG_INFO) (world s0))
               = ((True, devPath), w1)
           \<and> sys_open env devPath w1 = (fd, w2) \<and> fd \<noteq> - 1
           \<and> run_state (DevfsEvent_ReadLabel env fd)
                 \<lparr>world = w2,
                  trace = trace s0 @ [Act_Event_Log ev LOG_INFO, Act_DevPath ev,
                                      Act_open devPath]\<rparr>
               = ((Some l, False, True), s3)))"
proof (intro conjI impI)
  assume "run_state (DevfsEvent_ReadLabel env devFd) s = ((devLabel, inUse, degraded), s')"
    and "devLabel = None"
  then show "\<not> degraded"
    using ReadLabel_degraded_label by blast
next
  define dmsg where "dmsg = Act_syslog LOG_INFO
     ''%s is marked degraded.  Ignoring as a replace by physical path candidate.\<newline>''
     [devName]"
  assume "Act_syslog LOG_INFO
         ''%s is marked degraded.  Ignoring as a replace by physical path candidate.\<newline>''
         [devName] \<in> set (calls (DevfsEvent_Process env ev) s0)"
  then have logged: "dmsg \<in> set (calls (DevfsEvent_Process env ev) s0)"
    unfolding dmsg_def .
  have other: "dmsg \<noteq> Act_Event_Log ev LOG_INFO" "dmsg \<noteq> Act_DevPath ev"
    "\<And>p. dmsg \<noteq> Act_open p"
    unfolding dmsg_def by simp_all
  have create: "Value ev ''type'' = ''CREATE''" and disk: "IsDiskDev env ev"
  proof -
    have "Value ev ''type'' = ''CREATE'' \<and> IsDiskDev env ev"
    proof (rule ccontr)
      assume "\<not> (Value ev ''type'' = ''CREATE'' \<and> IsDiskDev env ev)"
      then have "run_state (DevfsEvent_Process env ev) s0 = (False, s0)"
        by (auto simp add: DevfsEvent_Process_def)
      then have "calls (DevfsEvent_Process env ev) s0 = []"
        by (simp add: calls_def)
      with logged show False by simp
    qed
    then show "Value ev ''type'' = ''CREATE''" and "IsDiskDev env ev" by simp_all
  qed
  obtain ok devPath w1 where
    path0: "DevPath env ev (effect env (Act_Event_Log ev LOG_INFO) (world s0))
              = ((ok, devPath), w1)"
    by (metis prod.exhaust)
  have ok: ok
  proof (rule ccontr)
    assume "\<not> ok"
    then have "calls (DevfsEvent_Process env ev) s0 = [Act_Event_Log ev LOG_INFO, Act_DevPath ev]"
      unfolding calls_def DevfsEvent_Process_def
      by (simp add: create disk path0)
    with logged other show False by simp
  qed
  with path0 have path: "DevPath env ev (effect env (Act_Event_Log ev LOG_INFO) (world s0))
              = ((True, devPath), w1)"
    by simp
  obtain fd w2 where opened: "sys_open env devPath w1 = (fd, w2)"
    by (metis prod.exhaust)
  have fd: "fd \<noteq> - 1"
  proof
    assume "fd = - 1"
    then have "calls (DevfsEvent_Process env ev) s0 =
        [Act_Event_Log ev LOG_INFO, Act_DevPath ev, Act_open devPath]"
      unfolding calls_def DevfsEvent_Process_def
      by (simp add: create disk path opened)
    with logged other show False by simp
  qed
  obtain lbl iu dg s3 where
    label: "run_state (DevfsEvent_ReadLabel env fd)
                 \<lparr>world = w2,
                  trace = trace s0 @ [Act_Event_Log ev LOG_INFO, Act_DevPath ev,
                                      Act_open devPath]\<rparr>
               = ((lbl, iu, dg), s3)"
    by (metis prod.exhaust)
  from Process_after_label[OF create disk path opened fd label logged[unfolded dmsg_def]]
  have flags: "\<not> iu" "dg" by simp_all
  with ReadLabel_degraded_label[OF label] obtain l where "lbl = Some l"
    by auto
  with label flags have "run_state (DevfsEvent_ReadLabel env fd)
                 \<lparr>world = w2,
                  trace = trace s0 @ [Act_Event_Log ev LOG_INFO, Act_DevPath ev,
                                      Act_open devPath]\<rparr>
               = ((Some l, False, True), s3)"
    by simp
  with path opened fd
  show "\<exists>devPath w1 fd w2 l s3.
             DevPath env ev (effect env (Act_Event_Log ev LOG_INFO) (world s0))
               = ((True, devPath), w1)
           \<and> sys_open env devPath w1 = (fd, w2) \<and> fd \<noteq> - 1
           \<and> run_state (DevfsEvent_ReadLabel env fd)
                 \<lparr>world = w2,
                  trace = trace s0 @ [Act_Event_Log ev LOG_INFO, Act_DevPath ev,
                                      Act_open devPath]\<rparr>
               = ((Some l, False, True), s3)"
    by blast
qed

theorem ReadLabel_absent_label_not_degraded_witness:
  "run_state (DevfsEvent_ReadLabel bad_label_env 3) start =
       ((None, False, False),
        \<lparr>world = (),
         trace = [Act_zpool_in_use 3, Act_zpool_read_label 3,
                  Act_Exception_Log
                    \<lparr>GetString =
                       ''DevfsEvent::ReadLabel: /dev/da1: Unable to extract vdev GUID''\<rparr>]\<rparr>)
   \<and> Act_syslog LOG_INFO
         ''%s is marked degraded.  Ignoring as a replace by physical path candidate.\<newline>''
         [''da1''] \<in> set (calls (DevfsEvent_Process degraded_arrival_env arrival_da1) start)
   \<and> (\<exists>devPath w1 fd w2 l s3.
             DevPath degraded_arrival_env arrival_da1
               (effect degraded_arrival_env (Act_Event_Log arrival_da1 LOG_INFO) (world start))
               = ((True, devPath), w1)
           \<and> sys_open degraded_arrival_env devPath w1 = (fd, w2) \<and> fd \<noteq> - 1
           \<and> run_state (DevfsEvent_ReadLabel degraded_arrival_env fd)
                 \<lparr>world = w2,
                  trace = trace start @ [Act_Event_Log arrival_da1 LOG_INFO,
                                         Act_DevPath arrival_da1, Act_open devPath]\<rparr>
               = ((Some l, False, True), s3))"
proof -
  have absent: "run_state (DevfsEvent_ReadLabel bad_label_env 3) start =
       ((None, False, False),
        \<lparr>world = (),
         trace = [Act_zpool_in_use 3, Act_zpool_read_label 3,
                  Act_Exception_Log
                    \<lparr>GetString =
                       ''DevfsEvent::ReadLabel: /dev/da1: Unable to extract vdev GUID''\<rparr>]\<rparr>)"
    by (simp add: DevfsEvent_ReadLabel_def bad_label_env_def degraded_arrival_env_def
        start_def PATH_DEV_def)
  have tr: "calls (DevfsEvent_Process degraded_arrival_env arrival_da1) start =
       [Act_Event_Log arrival_da1 LOG_INFO, Act_DevPath arrival_da1, Act_open ''/dev/da1'',
        Act_zpool_in_use 3, Act_zpool_read_label 3, Act_PhysicalPath arrival_da1,
        Act_close 3,
        Act_syslog LOG_INFO
          ''%s is marked degraded.  Ignoring as a replace by physical path candidate.\<newline>''
          [''da1''],
        Act_nvlist_free 1]"
    by (simp add: calls_def DevfsEvent_Process_def DevfsEvent_ReadLabel_def
        degraded_arrival_env_def label_da1_def start_def Value_def arrival_da1_def)
  have logged: "Act_syslog LOG_INFO
         ''%s is marked degraded.  Ignoring as a replace by physical path candidate.\<newline>''
         [''da1''] \<in> set (calls (DevfsEvent_Process degraded_arrival_env arrival_da1) start)"
    unfolding tr by simp
  from ReadLabel_absent_label_not_degraded[where env = degraded_arrival_env
      and devName = "''da1''" and ev = arrival_da1 and ?s0.0 = start]
  have "\<exists>devPath w1 fd w2 l s3.
             DevPath degraded_arrival_env arrival_da1
               (effect degraded_arrival_env (Act_Event_Log arrival_da1 LOG_INFO) (world start))
               = ((True, devPath), w1)
           \<and> sys_open degraded_arrival_env devPath w1 = (fd, w2) \<and> fd \<noteq> - 1
           \<and> run_state (DevfsEvent_ReadLabel degraded_arrival_env fd)
                 \<lparr>world = w2,
                  trace = trace start @ [Act_Event_Log arrival_da1 LOG_INFO,
                                         Act_DevPath arrival_da1, Act_open devPath]\<rparr>
               = ((Some l, False, True), s3)"
    using logged by blast
  moreover
  from ReadLabel_absent_label_not_degraded[where env = bad_label_env and devFd = 3
      and s = start and devLabel = None and inUse = False and degraded = False]
  have "\<not> False"
    using absent by blast
  ultimately show ?thesis using absent logged by blast
qed

section \<open>Pool and vdev notifications\<close>

text \<open>
  C3. For an event whose type begins with \<^verbatim>\<open>misc.fs.zfs.config_sync\<close>,
  \<open>ZfsEvent::Process\<close> first calls \<^verbatim>\<open>ReplayUnconsumedEvents\<close> with discard set, then
  \<^verbatim>\<open>CaseFile::ReEvaluateByGuid\<close> with the event's pool id and the event itself, then
  runs \<open>ProcessPoolEvent\<close> from the state these two calls leave, and returns false.
\<close>

theorem config_sync_replays_then_reevaluates:
  assumes cs: "prefix ''misc.fs.zfs.config_sync'' (Value ev ''type'')"
  shows "run_state (ZfsEvent_Process env ev) s =
     (False,
      snd (run_state (ZfsEvent_ProcessPoolEvent env ev)
        \<lparr>world = effect env (Act_CaseFile_ReEvaluateByGuid (EvPoolGUID env ev) ev)
                   (effect env (Act_ReplayUnconsumedEvents True) (world s)),
         trace = trace s @
           [Act_ReplayUnconsumedEvents True,
            Act_CaseFile_ReEvaluateByGuid (EvPoolGUID env ev) ev]\<rparr>))"
proof -
  have "prefix ''misc.fs.zfs.'' ''misc.fs.zfs.config_sync''" by simp
  then have p: "prefix ''misc.fs.zfs.'' (Value ev ''type'')"
    using cs by (rule prefix_order.trans)
  have c: "Contains ev ''type''"
    using cs by (intro Value_nonempty_Contains) auto
  show ?thesis
    unfolding ZfsEvent_Process_def string_find_zero_iff
    by (simp add: cs p c split: prod.splits)
qed

theorem config_sync_replays_then_reevaluates_witness:
  "prefix ''misc.fs.zfs.config_sync'' (Value config_sync_event ''type'')
   \<and> run_state (ZfsEvent_Process pool_9_env config_sync_event) start =
       (False,
        \<lparr>world = (),
         trace = [Act_ReplayUnconsumedEvents True,
                  Act_CaseFile_ReEvaluateByGuid 9 config_sync_event,
                  Act_CaseFile_Find 9 3]\<rparr>)"
proof -
  have cs: "prefix ''misc.fs.zfs.config_sync'' (Value config_sync_event ''type'')"
    by (simp add: Value_def config_sync_event_def)
  have ty: "Value config_sync_event ''type'' = ''misc.fs.zfs.config_sync''"
    by (simp add: Value_def config_sync_event_def)
  have pool: "run_state (ZfsEvent_ProcessPoolEvent pool_9_env config_sync_event)
        \<lparr>world = (),
         trace = [Act_ReplayUnconsumedEvents True,
                  Act_CaseFile_ReEvaluateByGuid 9 config_sync_event]\<rparr>
      = ((), \<lparr>world = (),
              trace = [Act_ReplayUnconsumedEvents True,
                       Act_CaseFile_ReEvaluateByGuid 9 config_sync_event,
                       Act_CaseFile_Find 9 3]\<rparr>)"
    by (simp add: ZfsEvent_ProcessPoolEvent_def ty pool_9_env_def quiet_env_def)
  have g: "EvPoolGUID pool_9_env config_sync_event = 9"
    by (simp add: pool_9_env_def)
  from config_sync_replays_then_reevaluates[OF cs, of pool_9_env start]
  show ?thesis
    using cs pool g by (simp add: start_def)
qed

text \<open>
  C6. An event whose type does not begin with \<^verbatim>\<open>misc.fs.zfs.\<close> and that lacks the
  \<^verbatim>\<open>pool_guid\<close> tag or the \<^verbatim>\<open>vdev_guid\<close> tag is dropped: \<open>ZfsEvent::Process\<close>
  returns false, and the only call it can have made is the error log line for an event
  with neither class nor type.
\<close>

theorem untagged_vdev_event_discarded:
  assumes np: "\<not> prefix ''misc.fs.zfs.'' (Value ev ''type'')"
    and tags: "\<not> Contains ev ''pool_guid'' \<or> \<not> Contains ev ''vdev_guid''"
  shows "run_state (ZfsEvent_Process env ev) s =
     (False,
      if \<not> Contains ev ''class'' \<and> \<not> Contains ev ''type'' then
        \<lparr>world = effect env
                   (Act_syslog LOG_ERR ''ZfsEvent::Process: Missing class or type data.'' [])
                   (world s),
         trace = trace s @
           [Act_syslog LOG_ERR ''ZfsEvent::Process: Missing class or type data.'' []]\<rparr>
      else s)"
  unfolding ZfsEvent_Process_def string_find_zero_iff
  using tags by (auto simp add: np not_config_sync[OF np])

theorem untagged_vdev_event_discarded_witness:
  "\<not> prefix ''misc.fs.zfs.'' (Value untagged_event ''type'')
   \<and> \<not> Contains untagged_event ''vdev_guid''
   \<and> Contains untagged_event ''class''
   \<and> run_state (ZfsEvent_Process pool_9_env untagged_event) start = (False, start)"
proof -
  have np: "\<not> prefix ''misc.fs.zfs.'' (Value untagged_event ''type'')"
    by (simp add: Value_def untagged_event_def)
  have nv: "\<not> Contains untagged_event ''vdev_guid''"
    by (simp add: Contains_def untagged_event_def)
  then have tags: "\<not> Contains untagged_event ''pool_guid'' \<or> \<not> Contains untagged_event ''vdev_guid''"
    by simp
  have c: "Contains untagged_event ''class''"
    by (simp add: Contains_def untagged_event_def)
  from untagged_vdev_event_discarded[OF np tags, of pool_9_env start]
  show ?thesis using np nv c by simp
qed

text \<open>
  C8. A vdev-scoped event with both id tags, for which no case is open and whose class
  begins with \<^verbatim>\<open>fs.zfs.vdev.no_replicas\<close>, is logged at \<^verbatim>\<open>LOG_INFO\<close> and dropped:
  after the case lookup the calls are the logging of the event and the "No replicas
  available" line, both informational; \<open>Process\<close> returns false, and no case is
  created.
\<close>

theorem no_replicas_event_discarded:
  assumes scoped: "vdev_scoped ev"
    and tags: "Contains ev ''pool_guid''" "Contains ev ''vdev_guid''"
    and cls: "prefix ''fs.zfs.vdev.no_replicas'' (Value ev ''class'')"
    and nocase: "CaseFile_Find env (EvPoolGUID env ev) (EvVdevGUID env ev) (world s) = (None, w1)"
  shows "fst (run_state (ZfsEvent_Process env ev) s) = False
     \<and> calls (ZfsEvent_Process env ev) s =
         [Act_CaseFile_Find (EvPoolGUID env ev) (EvVdevGUID env ev),
          Act_Event_Log ev LOG_INFO,
          Act_syslog LOG_INFO ''%s''
            [''No replicas available for pool '' @ Guid_string env (EvPoolGUID env ev)
             @ '', ignoring'']]
     \<and> filter is_case_create (calls (ZfsEvent_Process env ev) s) = []"
proof -
  from scoped have np: "\<not> prefix ''misc.fs.zfs.'' (Value ev ''type'')"
    and ct: "Contains ev ''class'' \<or> Contains ev ''type''"
    by (simp_all add: vdev_scoped_def)
  define msg where "msg = Act_syslog LOG_INFO ''%s''
            [''No replicas available for pool '' @ Guid_string env (EvPoolGUID env ev)
             @ '', ignoring'']"
  have run: "run_state (ZfsEvent_Process env ev) s =
     (False,
      \<lparr>world = effect env msg (effect env (Act_Event_Log ev LOG_INFO) w1),
       trace = trace s @
         [Act_CaseFile_Find (EvPoolGUID env ev) (EvVdevGUID env ev),
          Act_Event_Log ev LOG_INFO, msg]\<rparr>)"
    unfolding ZfsEvent_Process_def string_find_zero_iff msg_def
    using ct by (simp add: tags np not_config_sync[OF np] cls nocase)
  have c: "calls (ZfsEvent_Process env ev) s =
         [Act_CaseFile_Find (EvPoolGUID env ev) (EvVdevGUID env ev),
          Act_Event_Log ev LOG_INFO, msg]"
    unfolding calls_def run by simp
  have "filter is_case_create (calls (ZfsEvent_Process env ev) s) = []"
    unfolding c msg_def by simp
  with run c show ?thesis unfolding msg_def by simp
qed

theorem no_replicas_event_discarded_witness:
  "vdev_scoped no_replicas_event
   \<and> prefix ''fs.zfs.vdev.no_replicas'' (Value no_replicas_event ''class'')
   \<and> CaseFile_Find pool_9_env 9 3 () = (None, ())
   \<and> fst (run_state (ZfsEvent_Process pool_9_env no_replicas_event) start) = False
   \<and> calls (ZfsEvent_Process pool_9_env no_replicas_event) start =
       [Act_CaseFile_Find 9 3, Act_Event_Log no_replicas_event LOG_INFO,
        Act_syslog LOG_INFO ''%s'' [''No replicas available for pool 9, ignoring'']]
   \<and> filter is_case_create (calls (ZfsEvent_Process pool_9_env no_replicas_event) start) = []"
proof -
  have scoped: "vdev_scoped no_replicas_event"
    by (simp add: vdev_scoped_def Contains_def Value_def no_replicas_event_def)
  have tags: "Contains no_replicas_event ''pool_guid''" "Contains no_replicas_event ''vdev_guid''"
    by (simp_all add: Contains_def no_replicas_event_def)
  have cls: "prefix ''fs.zfs.vdev.no_replicas'' (Value no_replicas_event ''class'')"
    by (simp add: Value_def no_replicas_event_def)
  have g: "EvPoolGUID pool_9_env no_replicas_event = 9" "EvVdevGUID pool_9_env no_replicas_event = 3"
    "Guid_string pool_9_env 9 = ''9''"
    by (simp_all add: pool_9_env_def)
  have nocase: "CaseFile_Find pool_9_env (EvPoolGUID pool_9_env no_replicas_event)
      (EvVdevGUID pool_9_env no_replicas_event) (world start) = (None, ())"
    by (simp add: pool_9_env_def quiet_env_def)
  from no_replicas_event_discarded[OF scoped tags cls nocase]
  show ?thesis
    using scoped cls nocase g by simp
qed

text \<open>
  C2. Take a vdev-scoped event with both id tags, for which no case is open and whose
  class does not begin with \<^verbatim>\<open>fs.zfs.vdev.no_replicas\<close>. Then
  \<^item> if no pool with the event's pool id is visible, \<open>Process\<close> returns true and creates
    no case;
  \<^item> if a pool is visible and the event's vdev id is not found in the first such pool,
    \<open>Process\<close> returns true and creates no case;
  \<^item> if the vdev is found, \<open>Process\<close> creates exactly one case, for that vdev, forwards
    the event to it, and returns true exactly when the case reports the event
    unconsumed.
  The three situations are exhaustive, so true is returned in no other way.
\<close>

theorem unmatched_vdev_event_retained_iff_unresolved:
  assumes scoped: "vdev_scoped ev"
    and tags: "Contains ev ''pool_guid''" "Contains ev ''vdev_guid''"
    and nocase: "CaseFile_Find env (EvPoolGUID env ev) (EvVdevGUID env ev) (world s) = (None, w1)"
    and norep: "\<not> prefix ''fs.zfs.vdev.no_replicas'' (Value ev ''class'')"
  shows
    "(ZpoolList_ZpoolByGUID env (EvPoolGUID env ev) w1 = ([], w2)
        \<longrightarrow> fst (run_state (ZfsEvent_Process env ev) s) = True
            \<and> filter is_case_create (calls (ZfsEvent_Process env ev) s) = [])
     \<and> (ZpoolList_ZpoolByGUID env (EvPoolGUID env ev) w1 = (hdl # rest, w2)
          \<and> VdevIterator_Find env hdl (EvVdevGUID env ev) w2 = (None, w3)
        \<longrightarrow> fst (run_state (ZfsEvent_Process env ev) s) = True
            \<and> filter is_case_create (calls (ZfsEvent_Process env ev) s) = [])
     \<and> (ZpoolList_ZpoolByGUID env (EvPoolGUID env ev) w1 = (hdl # rest, w2)
          \<and> VdevIterator_Find env hdl (EvVdevGUID env ev) w2 = (Some cfg, w3)
          \<and> CaseFile_Create env (Vdev_of_config env hdl cfg) w3 = (c, w4)
          \<and> CaseFile_ReEvaluate env c ev w4 = (consumed, w5)
        \<longrightarrow> fst (run_state (ZfsEvent_Process env ev) s) = (\<not> consumed)
            \<and> filter is_case_create (calls (ZfsEvent_Process env ev) s) =
                [Act_CaseFile_Create (Vdev_of_config env hdl cfg)]
            \<and> filter is_reevaluation (calls (ZfsEvent_Process env ev) s) =
                [Act_CaseFile_ReEvaluate c ev])"
proof -
  from scoped have np: "\<not> prefix ''misc.fs.zfs.'' (Value ev ''type'')"
    and ct: "Contains ev ''class'' \<or> Contains ev ''type''"
    by (simp_all add: vdev_scoped_def)
  note pre = tags np not_config_sync[OF np] norep nocase
  have a: "fst (run_state (ZfsEvent_Process env ev) s) = True
            \<and> filter is_case_create (calls (ZfsEvent_Process env ev) s) = []"
    if "ZpoolList_ZpoolByGUID env (EvPoolGUID env ev) w1 = ([], w2)"
    unfolding calls_def ZfsEvent_Process_def string_find_zero_iff
    using ct by (simp add: pre that Let_def)
  have b: "fst (run_state (ZfsEvent_Process env ev) s) = True
            \<and> filter is_case_create (calls (ZfsEvent_Process env ev) s) = []"
    if "ZpoolList_ZpoolByGUID env (EvPoolGUID env ev) w1 = (hdl # rest, w2)"
      and "VdevIterator_Find env hdl (EvVdevGUID env ev) w2 = (None, w3)"
    unfolding calls_def ZfsEvent_Process_def string_find_zero_iff
    using ct by (simp add: pre that Let_def)
  have c: "fst (run_state (ZfsEvent_Process env ev) s) = (\<not> consumed)
            \<and> filter is_case_create (calls (ZfsEvent_Process env ev) s) =
                [Act_CaseFile_Create (Vdev_of_config env hdl cfg)]
            \<and> filter is_reevaluation (calls (ZfsEvent_Process env ev) s) =
                [Act_CaseFile_ReEvaluate c ev]"
    if "ZpoolList_ZpoolByGUID env (EvPoolGUID env ev) w1 = (hdl # rest, w2)"
      and "VdevIterator_Find env hdl (EvVdevGUID env ev) w2 = (Some cfg, w3)"
      and "CaseFile_Create env (Vdev_of_config env hdl cfg) w3 = (c, w4)"
      and "CaseFile_ReEvaluate env c ev w4 = (consumed, w5)"
    unfolding calls_def ZfsEvent_Process_def string_find_zero_iff
    using ct by (cases consumed) (simp_all add: pre that Let_def)
  from a b c show ?thesis by blast
qed

theorem unmatched_vdev_event_retained_iff_unresolved_witness:
  "vdev_scoped vdev_event
   \<and> \<not> prefix ''fs.zfs.vdev.no_replicas'' (Value vdev_event ''class'')
   \<and> CaseFile_Find pool_9_env 9 3 () = (None, ())
   \<and> ZpoolList_ZpoolByGUID pool_9_env 9 () = ([1], ())
   \<and> VdevIterator_Find pool_9_env 1 3 () = (Some 2, ())
   \<and> CaseFile_Create pool_9_env vdev_3 () = (4, ())
   \<and> CaseFile_ReEvaluate pool_9_env 4 vdev_event () = (False, ())
   \<and> fst (run_state (ZfsEvent_Process pool_9_env vdev_event) start) = True
   \<and> filter is_case_create (calls (ZfsEvent_Process pool_9_env vdev_event) start) =
       [Act_CaseFile_Create vdev_3]
   \<and> ZpoolList_ZpoolByGUID quiet_env 0 () = ([], ())
   \<and> fst (run_state (ZfsEvent_Process quiet_env vdev_event) start) = True
   \<and> filter is_case_create (calls (ZfsEvent_Process quiet_env vdev_event) start) = []"
proof -
  have scoped: "vdev_scoped vdev_event"
    by (simp add: vdev_scoped_def Contains_def Value_def vdev_event_def)
  have tags: "Contains vdev_event ''pool_guid''" "Contains vdev_event ''vdev_guid''"
    by (simp_all add: Contains_def vdev_event_def)
  have norep: "\<not> prefix ''fs.zfs.vdev.no_replicas'' (Value vdev_event ''class'')"
    by (simp add: Value_def vdev_event_def)
  have g: "EvPoolGUID pool_9_env vdev_event = 9" "EvVdevGUID pool_9_env vdev_event = 3"
    "Vdev_of_config pool_9_env 1 2 = vdev_3"
    by (simp_all add: pool_9_env_def)
  have q: "EvPoolGUID quiet_env vdev_event = 0" "EvVdevGUID quiet_env vdev_event = 0"
    by (simp_all add: quiet_env_def)
  have nocase: "CaseFile_Find pool_9_env (EvPoolGUID pool_9_env vdev_event)
      (EvVdevGUID pool_9_env vdev_event) (world start) = (None, ())"
    by (simp add: pool_9_env_def quiet_env_def)
  have qnocase: "CaseFile_Find quiet_env (EvPoolGUID quiet_env vdev_event)
      (EvVdevGUID quiet_env vdev_event) (world start) = (None, ())"
    by (simp add: quiet_env_def)
  have pool: "ZpoolList_ZpoolByGUID pool_9_env 9 () = ([1], ())"
    by (simp add: pool_9_env_def)
  have vd: "VdevIterator_Find pool_9_env 1 3 () = (Some 2, ())"
    by (simp add: pool_9_env_def)
  have cr: "CaseFile_Create pool_9_env vdev_3 () = (4, ())"
    by (simp add: pool_9_env_def)
  have re: "CaseFile_ReEvaluate pool_9_env 4 vdev_event () = (False, ())"
    by (simp add: pool_9_env_def)
  have qpool: "ZpoolList_ZpoolByGUID quiet_env 0 () = ([], ())"
    by (simp add: quiet_env_def)
  from unmatched_vdev_event_retained_iff_unresolved[OF scoped tags nocase norep,
      of "()" 1 "[]" "()" 2 4 "()" False "()"]
  have found: "fst (run_state (ZfsEvent_Process pool_9_env vdev_event) start) = True
     \<and> filter is_case_create (calls (ZfsEvent_Process pool_9_env vdev_event) start) =
       [Act_CaseFile_Create vdev_3]"
    using g pool vd cr re by simp
  from unmatched_vdev_event_retained_iff_unresolved[OF scoped tags qnocase norep,
      of "()" 1 "[]" "()" 2 4 "()" False "()"]
  have absent: "fst (run_state (ZfsEvent_Process quiet_env vdev_event) start) = True
     \<and> filter is_case_create (calls (ZfsEvent_Process quiet_env vdev_event) start) = []"
    using q qpool by simp
  show ?thesis
    using scoped norep nocase[unfolded g] pool vd cr re qpool found absent
    by (simp add: start_def)
qed

text \<open>
  C9. For a pool event whose type is \<^verbatim>\<open>misc.fs.zfs.vdev_remove\<close>,
  \<open>ProcessPoolEvent\<close> calls \<^verbatim>\<open>RequestSystemRescan\<close>, once, exactly when no case matches
  the event's pool and vdev ids, or the matching case's state, read before the event
  is forwarded to it, is unknown or not below healthy; otherwise it does not call it.
\<close>

theorem vdev_remove_requests_rescan_iff_not_degraded:
  assumes ty: "Value ev ''type'' = ''misc.fs.zfs.vdev_remove''"
    and find: "CaseFile_Find env (EvPoolGUID env ev) (EvVdevGUID env ev) (world s)
                 = (caseFile, w1)"
  shows "filter (\<lambda>a. a = Act_RequestSystemRescan) (calls (ZfsEvent_ProcessPoolEvent env ev) s) =
     (if caseFile = None
         \<or> (\<exists>c. caseFile = Some c
               \<and> (CaseFile_VdevState env c w1 = VDEV_STATE_UNKNOWN
                    \<or> \<not> vdev_state_rank (CaseFile_VdevState env c w1)
                          < vdev_state_rank VDEV_STATE_HEALTHY))
      then [Act_RequestSystemRescan] else [])"
proof (cases caseFile)
  case None
  show ?thesis
    unfolding calls_def ZfsEvent_ProcessPoolEvent_def
    by (simp add: ty find None)
next
  case (Some c)
  obtain r w2 where re: "CaseFile_ReEvaluate env c ev
      (effect env (Act_Event_Log ev LOG_INFO) w1) = (r, w2)"
    by (metis prod.exhaust)
  show ?thesis
    unfolding calls_def ZfsEvent_ProcessPoolEvent_def
    by (simp add: ty find Some re)
qed

theorem vdev_remove_requests_rescan_iff_not_degraded_witness:
  "Value vdev_remove_event ''type'' = ''misc.fs.zfs.vdev_remove''
   \<and> CaseFile_Find faulted_case_env 9 3 () = (Some 4, ())
   \<and> CaseFile_VdevState faulted_case_env 4 () = VDEV_STATE_FAULTED
   \<and> filter (\<lambda>a. a = Act_RequestSystemRescan)
        (calls (ZfsEvent_ProcessPoolEvent faulted_case_env vdev_remove_event) start) = []
   \<and> CaseFile_Find pool_9_env 9 3 () = (None, ())
   \<and> filter (\<lambda>a. a = Act_RequestSystemRescan)
        (calls (ZfsEvent_ProcessPoolEvent pool_9_env vdev_remove_event) start) =
       [Act_RequestSystemRescan]"
proof -
  have ty: "Value vdev_remove_event ''type'' = ''misc.fs.zfs.vdev_remove''"
    by (simp add: Value_def vdev_remove_event_def)
  have f1: "CaseFile_Find faulted_case_env (EvPoolGUID faulted_case_env vdev_remove_event)
      (EvVdevGUID faulted_case_env vdev_remove_event) (world start) = (Some 4, ())"
    by (simp add: faulted_case_env_def)
  have f2: "CaseFile_Find pool_9_env (EvPoolGUID pool_9_env vdev_remove_event)
      (EvVdevGUID pool_9_env vdev_remove_event) (world start) = (None, ())"
    by (simp add: pool_9_env_def quiet_env_def)
  have g: "CaseFile_Find faulted_case_env 9 3 () = (Some 4, ())"
    "CaseFile_VdevState faulted_case_env 4 () = VDEV_STATE_FAULTED"
    "CaseFile_Find pool_9_env 9 3 () = (None, ())"
    by (simp_all add: faulted_case_env_def pool_9_env_def quiet_env_def)
  from vdev_remove_requests_rescan_iff_not_degraded[OF ty f1]
    vdev_remove_requests_rescan_iff_not_degraded[OF ty f2]
  show ?thesis
    using ty g by simp
qed

section \<open>Spare reclaim\<close>

text \<open>The sibling loop finds what the description asks for.\<close>

lemma TryDetach_scan_iff:
  "TryDetach_scan siblings \<longleftrightarrow>
     (\<exists>sibling \<in> set siblings. \<not> Vdev_IsSpare sibling \<and> Vdev_State sibling = VDEV_STATE_HEALTHY)"
  by (induction siblings) auto

lemma TryDetach_run:
  "run_state (ZfsEvent_TryDetach env vdev hdl) s =
     (False,
      if redundant_spare env vdev then
        \<lparr>world = effect env (Act_zpool_vdev_detach hdl (Vdev_Path vdev))
                  (effect env (Act_syslog LOG_INFO ''Detaching spare vdev %s from pool %s''
                     [Vdev_Path vdev, zpool_get_name env hdl (world s)]) (world s)),
         trace = trace s @
           [Act_syslog LOG_INFO ''Detaching spare vdev %s from pool %s''
              [Vdev_Path vdev, zpool_get_name env hdl (world s)],
            Act_zpool_vdev_detach hdl (Vdev_Path vdev)]\<rparr>
      else s)"
  by (auto simp add: ZfsEvent_TryDetach_def redundant_spare_def TryDetach_scan_iff)

lemma Each_TryDetach_trace:
  "\<exists>T. trace (snd (run_state (VdevIterator_Each (ZfsEvent_TryDetach env) vdevs hdl) s)) = trace s @ T
     \<and> filter is_detach T =
         map (\<lambda>v. Act_zpool_vdev_detach hdl (Vdev_Path v)) (filter (redundant_spare env) vdevs)"
proof (induction vdevs arbitrary: s)
  case Nil
  show ?case by simp
next
  case (Cons v vs)
  let ?s1 = "snd (run_state (ZfsEvent_TryDetach env v hdl) s)"
  from Cons.IH[of ?s1] obtain T where
    T: "trace (snd (run_state (VdevIterator_Each (ZfsEvent_TryDetach env) vs hdl) ?s1)) = trace ?s1 @ T"
       "filter is_detach T =
         map (\<lambda>v. Act_zpool_vdev_detach hdl (Vdev_Path v)) (filter (redundant_spare env) vs)"
    by blast
  show ?case
  proof (cases "redundant_spare env v")
    case True
    with T show ?thesis by (simp add: TryDetach_run)
  next
    case False
    with T show ?thesis by (simp add: TryDetach_run)
  qed
qed

text \<open>
  C4. \<open>TryDetach\<close> returns false for every device. The detach commands it issues for a
  device are exactly one, for that device's path, when the device is a spare and some
  child of its parent is a healthy non-spare, and none otherwise. Hence a walk that
  ends only when the predicate answers true visits every device: the detach commands
  of the walk over a pool's devices are those of all its redundant spares, in order.
\<close>

theorem TryDetach_detaches_redundant_spares:
  "fst (run_state (ZfsEvent_TryDetach env vdev hdl) s) = False
   \<and> filter is_detach (calls (ZfsEvent_TryDetach env vdev hdl) s) =
       (if redundant_spare env vdev then [Act_zpool_vdev_detach hdl (Vdev_Path vdev)] else [])
   \<and> filter is_detach (calls (VdevIterator_Each (ZfsEvent_TryDetach env) vdevs hdl) s) =
       map (\<lambda>v. Act_zpool_vdev_detach hdl (Vdev_Path v)) (filter (redundant_spare env) vdevs)"
proof -
  obtain T where
    T: "trace (snd (run_state (VdevIterator_Each (ZfsEvent_TryDetach env) vdevs hdl) s)) = trace s @ T"
       "filter is_detach T =
         map (\<lambda>v. Act_zpool_vdev_detach hdl (Vdev_Path v)) (filter (redundant_spare env) vdevs)"
    using Each_TryDetach_trace by blast
  have walk: "filter is_detach (calls (VdevIterator_Each (ZfsEvent_TryDetach env) vdevs hdl) s) =
       map (\<lambda>v. Act_zpool_vdev_detach hdl (Vdev_Path v)) (filter (redundant_spare env) vdevs)"
    unfolding calls_def T(1) using T(2) by simp
  have one: "filter is_detach (calls (ZfsEvent_TryDetach env vdev hdl) s) =
       (if redundant_spare env vdev then [Act_zpool_vdev_detach hdl (Vdev_Path vdev)] else [])"
    by (simp add: calls_def TryDetach_run)
  have res: "fst (run_state (ZfsEvent_TryDetach env vdev hdl) s) = False"
    by (simp add: TryDetach_run)
  from res one walk show ?thesis by (intro conjI)
qed

theorem TryDetach_detaches_redundant_spares_witness:
  "redundant_spare mirror_SFH_env spare_S
   \<and> \<not> redundant_spare mirror_SF_env spare_S
   \<and> fst (run_state (ZfsEvent_TryDetach mirror_SFH_env spare_S 1) start) = False
   \<and> calls (ZfsEvent_TryDetach mirror_SFH_env spare_S 1) start =
       [Act_syslog LOG_INFO ''Detaching spare vdev %s from pool %s'' [''/dev/da11'', ''tank''],
        Act_zpool_vdev_detach 1 ''/dev/da11'']
   \<and> filter is_detach (calls (ZfsEvent_TryDetach mirror_SFH_env spare_S 1) start) =
       [Act_zpool_vdev_detach 1 ''/dev/da11'']
   \<and> filter is_detach (calls (ZfsEvent_TryDetach mirror_SF_env spare_S 1) start) = []
   \<and> filter is_detach
        (calls (VdevIterator_Each (ZfsEvent_TryDetach mirror_SFH_env)
                  [spare_S, faulted_F, healthy_H, spare_S] 1) start) =
       [Act_zpool_vdev_detach 1 ''/dev/da11'', Act_zpool_vdev_detach 1 ''/dev/da11'']"
proof -
  have r1: "redundant_spare mirror_SFH_env spare_S"
    by (simp add: redundant_spare_def mirror_SFH_env_def quiet_env_def spare_S_def
        faulted_F_def healthy_H_def)
  have r2: "\<not> redundant_spare mirror_SF_env spare_S"
    by (simp add: redundant_spare_def mirror_SF_env_def quiet_env_def spare_S_def faulted_F_def)
  have r3: "\<not> redundant_spare mirror_SFH_env faulted_F"
    "\<not> redundant_spare mirror_SFH_env healthy_H"
    by (simp_all add: redundant_spare_def faulted_F_def healthy_H_def)
  have p: "Vdev_Path spare_S = ''/dev/da11''"
    by (simp add: spare_S_def)
  have c1: "calls (ZfsEvent_TryDetach mirror_SFH_env spare_S 1) start =
       [Act_syslog LOG_INFO ''Detaching spare vdev %s from pool %s'' [''/dev/da11'', ''tank''],
        Act_zpool_vdev_detach 1 ''/dev/da11'']"
    using r1 by (simp add: calls_def TryDetach_run start_def mirror_SFH_env_def p)
  from TryDetach_detaches_redundant_spares[of mirror_SF_env spare_S 1 start "[]"]
    TryDetach_detaches_redundant_spares[of mirror_SFH_env spare_S 1 start
      "[spare_S, faulted_F, healthy_H, spare_S]"]
  show ?thesis
    using r1 r2 r3 c1 by (simp add: p)
qed

end
